theory Spec2Isabelle
  imports Main
begin

section \<open>Results and errors\<close>

text \<open>
  The TypeScript \<open>Result<T, E>\<close> is the sum \<open>E + T\<close>: \<open>Result.fail e\<close> is \<open>Inl e\<close>,
  \<open>Result.ok v\<close> is \<open>Inr v\<close>, and \<open>isError\<close> tests for \<open>Inl\<close>. An awaited call is modelled
  by the value its promise resolves to.
\<close>

definition isError :: "'e + 'a \<Rightarrow> bool" where
  "isError r = (case r of Inl _ \<Rightarrow> True | Inr _ \<Rightarrow> False)"

text \<open>
  An object whose properties this code never inspects (the condition-specific transfer
  state, the free part of a transfer's \<open>meta\<close>) is a map from property names to values kept
  as text.
\<close>

type_synonym obj = "string \<rightharpoonup> string"

section \<open>Channels\<close>

datatype UpdateType = Setup | Deposit | Create | Resolve

record NetworkContext =
  chainId :: int
  channelFactoryAddress :: string
  transferRegistryAddress :: string
  providerUrl :: string

text \<open>The fields of a signed \<open>ChannelUpdate\<close> that the modelled code reads.\<close>

record ChannelUpdate =
  type :: UpdateType
  nonce :: int
  aliceSignature :: "string option"
  bobSignature :: "string option"

record FullChannelState =
  channelAddress :: string
  aliceIdentifier :: string
  bobIdentifier :: string
  alice :: string
  bob :: string
  networkContext :: NetworkContext
  nonce :: int
  latestUpdate :: ChannelUpdate
  merkleRoot :: string

section \<open>Transfers and routing metadata\<close>

text \<open>
  The \<open>meta\<close> of a transfer is an open object. Its routing properties are typed by
  \<open>RouterSchemas.RouterMeta\<close> and may each be absent; \<open>rest\<close> holds every other property
  (among them \<open>senderIdentifier\<close>, when present).
\<close>

record PathEntry =
  recipient :: "string option"
  recipientAssetId :: "string option"
  recipientChainId :: "int option"

record RouterMeta =
  routingId :: "string option"
  path :: "PathEntry list option"
  requireOnline :: "bool option"
  rest :: obj

record Balance =
  amount :: "string list"
  to :: "string list"

text \<open>\<open>transferTimeout\<close> is a decimal string in the source and an integer here.\<close>

record FullTransferState =
  transferId :: string
  channelAddress :: string
  initiator :: string
  responder :: string
  transferDefinition :: string
  transferTimeout :: int
  transferState :: obj
  transferResolver :: "obj option"
  balance :: Balance
  assetId :: string
  meta :: "RouterMeta option"

text \<open>
  Values stored in the \<open>context\<close> object of an error. A context is an object literal, kept as
  the list of its properties in the order the source writes them.
\<close>

datatype ctx_value =
    CStr string
  | CNum int
  | CBool bool
  | CStrs "string list"
  | CObj obj
  | CMeta RouterMeta
  | CUndefined

type_synonym error_context = "(string \<times> ctx_value) list"

section \<open>Protocol: \<open>Vector.executeUpdate\<close>\<close>

datatype outbound_reason = BadSignatures | ChannelNotFound | OtherOutboundReason string

datatype inbound_reason = BadSignatures | OtherInboundReason string

text \<open>
  An \<open>OutboundChannelUpdateError\<close> as far as the modelled code reads it: its \<open>message\<close> and the
  optional \<open>context.counterpartyError\<close>.
\<close>

record OutboundChannelUpdateError =
  message :: outbound_reason
  counterpartyError :: "inbound_reason option"

text \<open>
  \<open>UpdateParams\<close>: \<open>counterpartyIdentifier\<close> is \<open>details.counterpartyIdentifier\<close>, which
  only a \<open>setup\<close> update carries and only the \<open>setup\<close> branch reads; \<open>details\<close> is the rest.
  The parameters that the source attaches to a \<open>ChannelNotFound\<close> error are left out of it.
\<close>

record UpdateParams =
  channelAddress :: string
  type :: UpdateType
  counterpartyIdentifier :: string
  details :: obj

text \<open>
  What \<open>executeUpdate\<close> does to the outside, in order: the calls of the lock service, the
  protocol exchange \<open>sync.outbound\<close> with the counterparty, and the posted event.
\<close>

datatype protocol_event =
    AcquireLock string bool string
  | SyncOutbound UpdateParams
  | ChannelUpdateEvent FullChannelState
  | ReleaseLock string string bool string

text \<open>
  The services the protocol is connected to: the store's \<open>getChannelState\<close>, the lock
  service's \<open>acquireLock\<close> (it returns the key) and \<open>sync.outbound\<close>, whose successful value
  is reduced to its \<open>updatedChannel\<close>.
\<close>

record protocol_services =
  publicIdentifier :: string
  storeGetChannelState :: "string \<Rightarrow> FullChannelState option"
  acquireLock :: "string \<Rightarrow> bool \<Rightarrow> string \<Rightarrow> string"
  syncOutbound :: "UpdateParams \<Rightarrow> OutboundChannelUpdateError + FullChannelState"

definition lockedOperation ::
  "protocol_services \<Rightarrow> UpdateParams \<Rightarrow>
   (OutboundChannelUpdateError + FullChannelState) \<times> protocol_event list" where
  "lockedOperation svc params =
     (case syncOutbound svc params of
        Inl e \<Rightarrow> (Inl e, [SyncOutbound params])
      | Inr updatedChannel \<Rightarrow>
          (Inr updatedChannel, [SyncOutbound params, ChannelUpdateEvent updatedChannel]))"

definition executeUpdate ::
  "protocol_services \<Rightarrow> UpdateParams \<Rightarrow>
   (OutboundChannelUpdateError + FullChannelState) \<times> protocol_event list" where
  "executeUpdate svc params =
     (case (if UpdateParams.type params = UpdateType.Setup
            then Some (publicIdentifier svc, counterpartyIdentifier params)
            else (case storeGetChannelState svc (UpdateParams.channelAddress params) of
                    None \<Rightarrow> None
                  | Some channel \<Rightarrow> Some (aliceIdentifier channel, bobIdentifier channel))) of
        None \<Rightarrow>
          (Inl \<lparr>message = outbound_reason.ChannelNotFound, counterpartyError = None\<rparr>, [])
      | Some (aliceId, bobId) \<Rightarrow>
          (let isAlice = (publicIdentifier svc = aliceId);
               counterparty = (if isAlice then bobId else aliceId);
               key = acquireLock svc (UpdateParams.channelAddress params) isAlice counterparty;
               (outboundRes, events) = lockedOperation svc params
           in (outboundRes,
               [AcquireLock (UpdateParams.channelAddress params) isAlice counterparty] @ events @
               [ReleaseLock (UpdateParams.channelAddress params) key isAlice counterparty])))"

section \<open>Engine: deposit with retries\<close>

text \<open>The plain \<open>Error\<close> of a failed schema validation carries the joined validator
  messages.\<close>

datatype deposit_error = SchemaError string | Outbound OutboundChannelUpdateError

definition recoveryFailed :: "OutboundChannelUpdateError \<Rightarrow> bool" where
  "recoveryFailed error \<longleftrightarrow>
     message error = outbound_reason.BadSignatures \<or>
     counterpartyError error = Some inbound_reason.BadSignatures"

text \<open>
  \<open>this.vector.deposit(params)\<close> is the protocol layer: its answer may differ from call to
  call, so it is a function \<open>vectorDeposit\<close> of the number of calls made before. The loop
  \<open>for (const _ of Array(3).fill(0))\<close> runs at most three times; \<open>count\<close> is the source's
  counter, which starts at 1 after the first call and is the number of calls made.
\<close>

fun depositLoop ::
  "(nat \<Rightarrow> OutboundChannelUpdateError + 'c) \<Rightarrow> nat \<Rightarrow>
   (OutboundChannelUpdateError + 'c) \<Rightarrow> nat \<Rightarrow> (OutboundChannelUpdateError + 'c) \<times> nat" where
  "depositLoop vectorDeposit 0 depositRes count = (depositRes, count)"
| "depositLoop vectorDeposit (Suc iterations) depositRes count =
     (case depositRes of
        Inr _ \<Rightarrow> (depositRes, count)
      | Inl error \<Rightarrow>
          if \<not> recoveryFailed error then (depositRes, count)
          else depositLoop vectorDeposit iterations (vectorDeposit count) (Suc count))"

text \<open>
  \<open>VectorEngine.deposit\<close>: \<open>validate\<close> is the compiled schema validator (\<open>None\<close> when the
  parameters are valid). The second component of the result is the number of calls of
  \<open>this.vector.deposit\<close>.
\<close>

definition deposit ::
  "('p \<Rightarrow> string option) \<Rightarrow> ('p \<Rightarrow> nat \<Rightarrow> OutboundChannelUpdateError + 'c) \<Rightarrow> 'p \<Rightarrow>
   (deposit_error + 'c) \<times> nat" where
  "deposit validate vectorDeposit params =
     (case validate params of
        Some errors \<Rightarrow> (Inl (SchemaError errors), 0)
      | None \<Rightarrow>
          (case depositLoop (vectorDeposit params) 3 (vectorDeposit params 0) 1 of
             (depositRes, count) \<Rightarrow> (map_sum Outbound id depositRes, count)))"

definition retryable :: "OutboundChannelUpdateError + 'c \<Rightarrow> bool" where
  "retryable r = (case r of Inl error \<Rightarrow> recoveryFailed error | Inr _ \<Rightarrow> False)"


section \<open>Engine: \<open>restoreState\<close>\<close>

record RestoreStateParams =
  counterpartyIdentifier :: string
  chainId :: int

text \<open>The answer of the counterparty to a restore request; either part may be missing.\<close>

record RestoreData =
  channel :: "FullChannelState option"
  activeTransfers :: "FullTransferState list option"

datatype EngineError = EngineError string string error_context

text \<open>
  How \<open>restoreState\<close> can end without a channel: the plain \<open>Error\<close> of the schema validator,
  the error of the messaging service, an \<open>EngineError\<close>, or an exception thrown by the function
  itself (a rejected promise).
\<close>

datatype restore_error =
    InvalidParams string
  | MessagingError string
  | Failed EngineError
  | Thrown string

datatype restore_event =
    SendRestoreRequest int string
  | SendRestoreAck string string
  | SendRestoreError EngineError string
  | SaveChannelStateAndTransfers FullChannelState "FullTransferState list"
  | PostRestoreStateEvent string string string int

text \<open>
  The collaborators of the engine during a restore. \<open>sendRestoreRequest\<close> and \<open>sendRestoreAck\<close>
  are \<open>messaging.sendRestoreStateMessage\<close> with the two payloads the source sends;
  \<open>saveChannelStateAndTransfers\<close> returns the message of the exception the store throws, if
  any; \<open>getChannelAddress\<close> is the chain service's Create2 derivation,
  \<open>validateChannelUpdateSignatures\<close> and \<open>generateMerkleTreeData\<close> the utilities of those
  names (the latter reduced to the \<open>root\<close> it returns).
\<close>

record engine_services =
  validateRestore :: "RestoreStateParams \<Rightarrow> string option"
  signerAddress :: string
  signerPublicIdentifier :: string
  sendRestoreRequest :: "int \<Rightarrow> string \<Rightarrow> string + RestoreData option"
  sendRestoreAck :: "string \<Rightarrow> string \<Rightarrow> string + unit"
  getSignerAddressFromPublicIdentifier :: "string \<Rightarrow> string"
  getChannelAddress :: "string \<Rightarrow> string \<Rightarrow> string \<Rightarrow> int \<Rightarrow> (string \<times> error_context) + string"
  validateChannelUpdateSignatures ::
    "FullChannelState \<Rightarrow> string option \<Rightarrow> string option \<Rightarrow> string + unit"
  generateMerkleTreeData :: "FullTransferState list \<Rightarrow> string"
  getChannelState :: "string \<Rightarrow> string + FullChannelState option"
  saveChannelStateAndTransfers :: "FullChannelState \<Rightarrow> FullTransferState list \<Rightarrow> string option"

text \<open>
  The helper \<open>sendResponseToCounterparty\<close>, which lets the counterparty release its lock.
  Without an error it sends the acknowledgement and returns the channel, unless the send
  fails; with an error (or after a failed acknowledgement) it sends the \<open>EngineError\<close> and
  returns it.
\<close>

definition restoreFailure ::
  "engine_services \<Rightarrow> RestoreStateParams \<Rightarrow> FullChannelState \<Rightarrow> string \<Rightarrow> error_context \<Rightarrow>
   (restore_error + FullChannelState) \<times> restore_event list" where
  "restoreFailure svc params ch error ctx =
     (let err = EngineError error (FullChannelState.channelAddress ch)
                  (ctx @ [(''signer'', CStr (signerPublicIdentifier svc)),
                          (''chainId'', CNum (RestoreStateParams.chainId params)),
                          (''method'', CStr ''restoreState''),
                          (''counterpartyIdentifier'',
                             CStr (RestoreStateParams.counterpartyIdentifier params))])
      in (Inl (Failed err),
          [SendRestoreError err (RestoreStateParams.counterpartyIdentifier params)]))"

definition sendResponseToCounterparty ::
  "engine_services \<Rightarrow> RestoreStateParams \<Rightarrow> FullChannelState \<Rightarrow> string option \<Rightarrow>
   error_context \<Rightarrow> (restore_error + FullChannelState) \<times> restore_event list" where
  "sendResponseToCounterparty svc params ch error ctx =
     (case error of
        None \<Rightarrow>
          (let ack = SendRestoreAck (FullChannelState.channelAddress ch)
                       (RestoreStateParams.counterpartyIdentifier params)
           in case sendRestoreAck svc (FullChannelState.channelAddress ch)
                     (RestoreStateParams.counterpartyIdentifier params) of
                Inr _ \<Rightarrow> (Inr ch, [ack])
              | Inl e \<Rightarrow>
                  (case restoreFailure svc params ch ''Restore failed: unable to ack''
                          [(''error'', CStr e)] of
                     (res, events) \<Rightarrow> (res, ack # events)))
      | Some msg \<Rightarrow> restoreFailure svc params ch msg ctx)"

text \<open>\<open>existing.getValue()?.nonce ?? 0\<close>\<close>

definition existingNonce :: "FullChannelState option \<Rightarrow> int" where
  "existingNonce existing = (case existing of None \<Rightarrow> 0 | Some c \<Rightarrow> FullChannelState.nonce c)"

text \<open>
  The verifications of the received channel and transfers, in the order of the source. Each
  failed check returns at once; the result is the message and the context of the reply a
  failed check sends through \<open>sendResponseToCounterparty\<close>, or \<open>None\<close> when every check
  passes.
\<close>

definition verifyRestoreData ::
  "engine_services \<Rightarrow> RestoreStateParams \<Rightarrow> FullChannelState \<Rightarrow> FullTransferState list \<Rightarrow>
   (string \<times> error_context) option" where
  "verifyRestoreData svc params ch transfers =
     (let counterparty = getSignerAddressFromPublicIdentifier svc
                           (RestoreStateParams.counterpartyIdentifier params)
      in case getChannelAddress svc
                (if alice ch = signerAddress svc then signerAddress svc else counterparty)
                (if bob ch = signerAddress svc then signerAddress svc else counterparty)
                (channelFactoryAddress (networkContext ch))
                (RestoreStateParams.chainId params) of
        Inl (e, ectx) \<Rightarrow>
          Some (''Restore failed: could not verify channelAddress'', (''error'', CStr e) # ectx)
      | Inr calculated \<Rightarrow>
          if calculated \<noteq> FullChannelState.channelAddress ch then
            Some (''Restore failed: invalid channelAddress'', [(''calculated'', CStr calculated)])
          else
     (case validateChannelUpdateSignatures svc ch
             (aliceSignature (latestUpdate ch)) (bobSignature (latestUpdate ch)) of
        Inl e \<Rightarrow>
          Some (''Restore failed: invalid signatures'',
                [(''calculated'', CStr calculated), (''error'', CStr e)])
      | Inr _ \<Rightarrow>
     (let root = generateMerkleTreeData svc transfers
      in if root \<noteq> merkleRoot ch then
           Some (''Restore failed: invalid merkleRoot'',
                 [(''calculated'', CStr root), (''merkleRoot'', CStr (merkleRoot ch)),
                  (''activeTransfers'', CStrs (map FullTransferState.transferId transfers))])
         else
     (case getChannelState svc (FullChannelState.channelAddress ch) of
        Inl e \<Rightarrow>
          Some (''Restore failed: store.getChannelState faileds'', [(''error'', CStr e)])
      | Inr existing \<Rightarrow>
     (let nonce = existingNonce existing;
          diff = FullChannelState.nonce ch - nonce
      in if diff \<le> 1 \<and> ChannelUpdate.type (latestUpdate ch) \<noteq> UpdateType.Setup then
           Some (''Restore failed: syncable state'',
                 [(''existing'', CNum nonce), (''toRestore'', CNum (FullChannelState.nonce ch))])
         else None)))))"

text \<open>
  \<open>restoreState\<close>. When the received \<open>channel\<close> is missing, the helper that should send the
  error reads \<open>channel.channelAddress\<close> and throws. The store is written only after every
  check has passed; the event is posted after the acknowledgement was attempted.
\<close>

definition restoreState ::
  "engine_services \<Rightarrow> RestoreStateParams \<Rightarrow>
   (restore_error + FullChannelState) \<times> restore_event list" where
  "restoreState svc params =
     (case validateRestore svc params of
        Some errors \<Rightarrow> (Inl (InvalidParams errors), [])
      | None \<Rightarrow>
     (let request = SendRestoreRequest (RestoreStateParams.chainId params)
                      (RestoreStateParams.counterpartyIdentifier params)
      in case sendRestoreRequest svc (RestoreStateParams.chainId params)
                (RestoreStateParams.counterpartyIdentifier params) of
        Inl e \<Rightarrow> (Inl (MessagingError e), [request])
      | Inr restoreData \<Rightarrow>
     (case (case restoreData of None \<Rightarrow> None | Some d \<Rightarrow> channel d) of
        None \<Rightarrow> (Inl (Thrown ''TypeError: cannot read channelAddress of undefined''), [request])
      | Some ch \<Rightarrow>
     (let reply = (\<lambda>error ctx.
            case sendResponseToCounterparty svc params ch error ctx of
              (res, events) \<Rightarrow> (res, request # events))
      in case (case restoreData of None \<Rightarrow> None | Some d \<Rightarrow> activeTransfers d) of
        None \<Rightarrow> reply (Some ''Restore failed: no data for restore'') []
      | Some transfers \<Rightarrow>
     (case verifyRestoreData svc params ch transfers of
        Some (error, ctx) \<Rightarrow> reply (Some error) ctx
      | None \<Rightarrow>
     (case saveChannelStateAndTransfers svc ch transfers of
        Some e \<Rightarrow>
          reply (Some ''Restore failed: could not save state'') [(''error'', CStr e)]
      | None \<Rightarrow>
     (case sendResponseToCounterparty svc params ch None [] of
        (returnVal, events) \<Rightarrow>
          (returnVal,
           [request, SaveChannelStateAndTransfers ch transfers] @ events @
           [PostRestoreStateEvent (FullChannelState.channelAddress ch) (aliceIdentifier ch)
              (bobIdentifier ch) (RestoreStateParams.chainId params)]))))))))"

text \<open>
  The conditions under which a restore is accepted, stated on the received data: (i) the
  Create2 derivation from the participants gives the received channel address, (ii) both
  signatures on the latest update verify, (iii) the merkle root of the received transfers
  is the channel's, (iv) the local channel can be read and the restored nonce exceeds the
  local nonce by more than one, or the latest update is the \<open>setup\<close> update.
\<close>

definition restoreChecks ::
  "engine_services \<Rightarrow> RestoreStateParams \<Rightarrow> FullChannelState \<Rightarrow> FullTransferState list \<Rightarrow> bool" where
  "restoreChecks svc params ch transfers \<longleftrightarrow>
     (let counterparty = getSignerAddressFromPublicIdentifier svc
                           (RestoreStateParams.counterpartyIdentifier params)
      in getChannelAddress svc
           (if alice ch = signerAddress svc then signerAddress svc else counterparty)
           (if bob ch = signerAddress svc then signerAddress svc else counterparty)
           (channelFactoryAddress (networkContext ch))
           (RestoreStateParams.chainId params) = Inr (FullChannelState.channelAddress ch)) \<and>
     \<not> isError (validateChannelUpdateSignatures svc ch
                  (aliceSignature (latestUpdate ch)) (bobSignature (latestUpdate ch))) \<and>
     generateMerkleTreeData svc transfers = merkleRoot ch \<and>
     (case getChannelState svc (FullChannelState.channelAddress ch) of
        Inl _ \<Rightarrow> False
      | Inr existing \<Rightarrow>
          1 < FullChannelState.nonce ch - existingNonce existing \<or>
          ChannelUpdate.type (latestUpdate ch) = UpdateType.Setup)"

section \<open>Router configuration: \<open>getRebalanceProfile\<close>\<close>

record RebalanceProfile =
  chainId :: int
  assetId :: string
  reclaimThreshold :: string
  target :: string
  collateralizeThreshold :: string

text \<open>The \<open>reasons\<close> of \<open>ForwardTransferError\<close>; a reason that is passed on from another
  error's message is \<open>OtherReason\<close>.\<close>

datatype forward_reason =
    InvalidForwardingInfo
  | SenderChannelNotFound
  | UnableToCalculateSwap
  | RecipientChannelNotFound
  | ReceiverOffline
  | UnableToGetRebalanceProfile
  | CheckInError
  | OtherReason string

datatype ForwardTransferError = ForwardTransferError forward_reason error_context

text \<open>
  \<open>config.rebalanceProfiles\<close> is read from the router's configuration file, so the list of
  profiles is a parameter. \<open>Array.prototype.find\<close> returns the first element that satisfies
  the predicate, as \<open>List.find\<close> does; a profile is an object, hence never falsy.
\<close>

definition getRebalanceProfile ::
  "RebalanceProfile list \<Rightarrow> int \<Rightarrow> string \<Rightarrow> ForwardTransferError + RebalanceProfile" where
  "getRebalanceProfile rebalanceProfiles cId aId =
     (case find (\<lambda>profile. RebalanceProfile.assetId profile = aId \<and>
                           RebalanceProfile.chainId profile = cId) rebalanceProfiles of
        None \<Rightarrow> Inl (ForwardTransferError UnableToGetRebalanceProfile
                       [(''chainId'', CNum cId), (''assetId'', CStr aId)])
      | Some rebalanceProfile \<Rightarrow> Inr rebalanceProfile)"

section \<open>Router: forwarding a created transfer\<close>

datatype node_response = NodeResponse string string

record ConditionalTransferCreatedPayload =
  transfer :: FullTransferState
  conditionType :: string

text \<open>
  \<open>NodeParams.ConditionalTransfer\<close>, the parameters of the outgoing transfer. \<open>amount\<close> is the
  first amount of the sender's balance, which is undefined for a balance without amounts.
\<close>

record ConditionalTransferParams =
  channelAddress :: string
  amount :: "string option"
  assetId :: string
  timeout :: int
  type :: string
  publicIdentifier :: string
  details :: obj
  meta :: RouterMeta

record ResolveTransferParams =
  channelAddress :: string
  transferId :: string
  meta :: obj
  transferResolver :: "obj option"
  publicIdentifier :: string

datatype RouterUpdateType = TRANSFER_CREATION | TRANSFER_RESOLUTION | UnknownUpdateType string

datatype RouterUpdateStatus = PENDING | PROCESSING | COMPLETE | FAILED | UNVERIFIED

datatype update_payload =
    CreationPayload ConditionalTransferParams
  | ResolutionPayload ResolveTransferParams

text \<open>A row of the router's table of queued updates, as \<open>handleIsAlive\<close> reads it.\<close>

record QueuedUpdate =
  id' :: string
  channelAddress :: string
  type :: RouterUpdateType
  payload :: update_payload
  status :: RouterUpdateStatus

text \<open>
  The calls the router makes that change something outside it: the transfer helpers of
  \<open>services/transfer\<close>, the node's \<open>resolveTransfer\<close>, and the writes of the router store. The
  functions below take the list of the calls made so far and return it extended.
\<close>

datatype router_call =
    CancelCreatedTransfer forward_reason FullTransferState error_context
  | AttemptTransferWithCollateralization ConditionalTransferParams FullChannelState bool
  | TransferWithCollateralization update_payload FullChannelState
  | ResolveTransfer update_payload
  | RequestCollateral string string
  | SendIsAlive string
  | ConditionalTransfer ConditionalTransferParams
  | QueueUpdate string RouterUpdateType update_payload
  | SetUpdateStatus string RouterUpdateStatus "string option"

type_synonym 'a router_op = "router_call list \<Rightarrow> 'a \<times> router_call list"

text \<open>
  The two helpers of \<open>services/transfer\<close> that \<open>forwardTransferCreation\<close> calls. Their value
  is empty when the update was queued instead of executed.
\<close>

type_synonym cancel_helper =
  "forward_reason \<Rightarrow> FullTransferState \<Rightarrow> error_context \<Rightarrow>
   (ForwardTransferError + node_response option) router_op"

type_synonym attempt_helper =
  "ConditionalTransferParams \<Rightarrow> FullChannelState \<Rightarrow> bool \<Rightarrow>
   (ForwardTransferError + node_response option) router_op"

text \<open>
  The node service and the pure helpers the router reads from. An answer may depend on the
  calls made before. \<open>TRANSFER_DECREMENT\<close> is the constant of that name and \<open>timeoutReason\<close>
  is \<open>NodeError.reasons.Timeout\<close>. A queued payload is handed to the node as it is stored
  (the source casts it), so \<open>resolveTransfer\<close> and \<open>transferWithCollateralization\<close> take an
  \<open>update_payload\<close>; the error of the latter is its message and \<open>context?.transferError\<close>.
\<close>

record router_services =
  getStateChannel :: "string \<Rightarrow> string + FullChannelState option"
  getStateChannelByParticipants :: "string \<Rightarrow> int \<Rightarrow> string + FullChannelState option"
  getSwappedAmount ::
    "string option \<Rightarrow> string \<Rightarrow> int \<Rightarrow> string \<Rightarrow> int \<Rightarrow> (string \<times> obj) + string"
  TRANSFER_DECREMENT :: int
  getTransfersByRoutingId :: "string option \<Rightarrow> string + FullTransferState list"
  resolveTransfer :: "router_call list \<Rightarrow> update_payload \<Rightarrow> string + node_response"
  getQueuedUpdates :: "router_call list \<Rightarrow> string \<Rightarrow> RouterUpdateStatus \<Rightarrow> QueuedUpdate list"
  transferWithCollateralization ::
    "router_call list \<Rightarrow> update_payload \<Rightarrow> FullChannelState \<Rightarrow>
     (string \<times> string option) + node_response"
  timeoutReason :: string

text \<open>\<open>const meta = { ...untypedMeta }\<close>: spreading \<open>undefined\<close> gives the empty object.\<close>

definition spreadMeta :: "RouterMeta option \<Rightarrow> RouterMeta" where
  "spreadMeta untypedMeta =
     (case untypedMeta of
        None \<Rightarrow> \<lparr>routingId = None, path = None, requireOnline = None, rest = Map.empty\<rparr>
      | Some m \<Rightarrow> m)"

text \<open>\<open>!s\<close> for a string that may be undefined: undefined and the empty string are falsy.\<close>

definition falsy :: "string option \<Rightarrow> bool" where
  "falsy s = (case s of None \<Rightarrow> True | Some v \<Rightarrow> v = [])"

text \<open>\<open>const [x] = xs\<close>: the first element, undefined for the empty array.\<close>

definition firstOf :: "'a list \<Rightarrow> 'a option" where
  "firstOf xs = (case xs of [] \<Rightarrow> None | x # _ \<Rightarrow> Some x)"

text \<open>
  The routing fields read from the meta: \<open>routingId\<close>, \<open>path\<close> (the first entry of
  \<open>meta.path ?? []\<close>) and \<open>recipientIdentifier\<close> (\<open>path?.recipient\<close>), or \<open>None\<close> when the test
  \<open>!routingId || !path || !recipientIdentifier\<close> rejects them.
\<close>

definition forwardingInfo :: "RouterMeta \<Rightarrow> (string \<times> PathEntry \<times> string) option" where
  "forwardingInfo m =
     (let routingId' = routingId m;
          path' = firstOf (case path m of None \<Rightarrow> [] | Some entries \<Rightarrow> entries);
          recipientIdentifier = (case path' of None \<Rightarrow> None | Some p \<Rightarrow> recipient p)
      in if falsy routingId' \<or> path' = None \<or> falsy recipientIdentifier then None
         else Some (the routingId', the path', the recipientIdentifier))"

text \<open>Truthiness of a context value, and the test \<open>error.context.shouldCancelSender\<close>.\<close>

definition truthy :: "ctx_value \<Rightarrow> bool" where
  "truthy v =
     (case v of
        CStr s \<Rightarrow> s \<noteq> []
      | CNum n \<Rightarrow> n \<noteq> 0
      | CBool b \<Rightarrow> b
      | CUndefined \<Rightarrow> False
      | _ \<Rightarrow> True)"

definition shouldCancelSender :: "error_context \<Rightarrow> bool" where
  "shouldCancelSender ctx =
     (case map_of ctx ''shouldCancelSender'' of None \<Rightarrow> False | Some v \<Rightarrow> truthy v)"

text \<open>
  The helper \<open>cancelSenderTransferAndReturnError\<close>: it calls \<open>cancelCreatedTransfer\<close> and
  returns its error, or else the forwarding error with the way the cancellation was done.
\<close>

definition cancelSenderTransferAndReturnError ::
  "cancel_helper \<Rightarrow> string \<Rightarrow> FullTransferState \<Rightarrow> forward_reason \<Rightarrow> error_context \<Rightarrow>
   (ForwardTransferError + node_response) router_op" where
  "cancelSenderTransferAndReturnError cancelCreatedTransfer routingId' senderTransfer errorReason
     ctx calls =
     (case cancelCreatedTransfer errorReason senderTransfer
             (ctx @ [(''routingId'', CStr routingId')]) calls of
        (Inl e, calls') \<Rightarrow> (Inl e, calls')
      | (Inr cancelValue, calls') \<Rightarrow>
          (Inl (ForwardTransferError errorReason
             (ctx @
              [(''senderChannel'', CStr (FullTransferState.channelAddress senderTransfer)),
               (''senderTransfer'', CStr (FullTransferState.transferId senderTransfer)),
               (''routingId'', CStr routingId'),
               (''senderTransferCancellation'',
                  CStr (if cancelValue \<noteq> None then ''executed'' else ''enqueued''))])),
           calls'))"

text \<open>
  The parameters of the outgoing transfer (\<open>newMeta\<close> and \<open>params\<close> of the source).
  \<open>{ balance, ...details }\<close> keeps every property of the transfer state but \<open>balance\<close>; in
  \<open>{ senderIdentifier: ..., ...meta }\<close> the properties of \<open>meta\<close> are written after
  \<open>senderIdentifier\<close>, so a \<open>senderIdentifier\<close> of \<open>meta\<close> overwrites the computed one.
\<close>

definition newMeta :: "FullTransferState \<Rightarrow> FullChannelState \<Rightarrow> RouterMeta \<Rightarrow> RouterMeta" where
  "newMeta senderTransfer senderChannel m =
     m\<lparr>rest :=
         [''senderIdentifier'' \<mapsto>
            (if initiator senderTransfer = bob senderChannel then bobIdentifier senderChannel
             else aliceIdentifier senderChannel)] ++ rest m\<rparr>"

definition transferParams ::
  "router_services \<Rightarrow> ConditionalTransferCreatedPayload \<Rightarrow> string \<Rightarrow> FullChannelState \<Rightarrow>
   FullChannelState \<Rightarrow> string option \<Rightarrow> string \<Rightarrow> ConditionalTransferParams" where
  "transferParams svc data routerPublicIdentifier senderChannel recipientChannel recipientAmount
     recipientAssetId' =
     \<lparr>ConditionalTransferParams.channelAddress = FullChannelState.channelAddress recipientChannel,
      amount = recipientAmount,
      assetId = recipientAssetId',
      timeout = transferTimeout (transfer data) - TRANSFER_DECREMENT svc,
      type = conditionType data,
      publicIdentifier = routerPublicIdentifier,
      details = transferState (transfer data) |` (- {''balance''}),
      meta = newMeta (transfer data) senderChannel (spreadMeta (FullTransferState.meta (transfer data)))\<rparr>"

text \<open>
  The amount for the recipient: the sender's amount, or the swapped amount when the asset or
  the chain differs (\<open>Detected inflight swap\<close>).
\<close>

definition inflightSwap ::
  "router_services \<Rightarrow> FullTransferState \<Rightarrow> int \<Rightarrow> string \<Rightarrow> int \<Rightarrow> (string \<times> obj) + string option" where
  "inflightSwap svc senderTransfer senderChainId recipientAssetId' recipientChainId' =
     (let senderAmount = firstOf (Balance.amount (balance senderTransfer));
          senderAssetId = FullTransferState.assetId senderTransfer
      in if recipientAssetId' \<noteq> senderAssetId \<or> recipientChainId' \<noteq> senderChainId
         then map_sum (\<lambda>e. e) Some
                (getSwappedAmount svc senderAmount senderAssetId senderChainId
                   recipientAssetId' recipientChainId')
         else Inr senderAmount)"

text \<open>
  \<open>forwardTransferCreation\<close>, with the two transfer helpers as parameters. The steps are those
  of the source: the routing fields, the sender channel, the defaults, the swap, the recipient
  channel, the parameters, the attempt and the handling of its outcome.
\<close>

definition forwardTransferCreation ::
  "router_services \<Rightarrow> attempt_helper \<Rightarrow> cancel_helper \<Rightarrow> ConditionalTransferCreatedPayload \<Rightarrow>
   string \<Rightarrow> string \<Rightarrow> (ForwardTransferError + node_response) router_op" where
  "forwardTransferCreation svc attemptTransferWithCollateralization cancelCreatedTransfer data
     routerPublicIdentifier routerSignerAddress calls =
     (let senderTransfer = transfer data;
          senderAssetId = FullTransferState.assetId senderTransfer;
          senderChannelAddress = FullTransferState.channelAddress senderTransfer;
          m = spreadMeta (FullTransferState.meta senderTransfer)
      in case forwardingInfo m of
        None \<Rightarrow>
          (Inl (ForwardTransferError InvalidForwardingInfo
                  [(''meta'', CMeta m),
                   (''senderTransfer'', CStr (FullTransferState.transferId senderTransfer)),
                   (''senderChannel'', CStr senderChannelAddress)]),
           calls)
      | Some (routingId', path', recipientIdentifier) \<Rightarrow>
     (case getStateChannel svc senderChannelAddress of
        Inl e \<Rightarrow>
          (Inl (ForwardTransferError SenderChannelNotFound [(''nodeError'', CStr e)]), calls)
      | Inr None \<Rightarrow>
          (Inl (ForwardTransferError SenderChannelNotFound
                  [(''channelAddress'', CStr senderChannelAddress)]), calls)
      | Inr (Some senderChannel) \<Rightarrow>
     (let senderChainId = NetworkContext.chainId (networkContext senderChannel);
          recipientAssetId' =
            (case recipientAssetId path' of None \<Rightarrow> senderAssetId | Some a \<Rightarrow> a);
          requireOnline' = (case requireOnline m of None \<Rightarrow> False | Some b \<Rightarrow> b);
          recipientChainId' =
            (case recipientChainId path' of None \<Rightarrow> senderChainId | Some c \<Rightarrow> c)
      in case inflightSwap svc senderTransfer senderChainId recipientAssetId' recipientChainId' of
        Inl (swapError, swapContext) \<Rightarrow>
          cancelSenderTransferAndReturnError cancelCreatedTransfer routingId' senderTransfer
            UnableToCalculateSwap
            [(''swapError'', CStr swapError), (''swapContext'', CObj swapContext)] calls
      | Inr recipientAmount \<Rightarrow>
     (case getStateChannelByParticipants svc recipientIdentifier recipientChainId' of
        Inl e \<Rightarrow>
          cancelSenderTransferAndReturnError cancelCreatedTransfer routingId' senderTransfer
            RecipientChannelNotFound [(''storeError'', CStr e)] calls
      | Inr None \<Rightarrow>
          cancelSenderTransferAndReturnError cancelCreatedTransfer routingId' senderTransfer
            RecipientChannelNotFound
            [(''participants'', CStrs [routerPublicIdentifier, recipientIdentifier]),
             (''chainId'', CNum recipientChainId')] calls
      | Inr (Some recipientChannel) \<Rightarrow>
     (let params = transferParams svc data routerPublicIdentifier senderChannel recipientChannel
                     recipientAmount recipientAssetId'
      in case attemptTransferWithCollateralization params recipientChannel requireOnline' calls of
        (Inr (Some v), calls') \<Rightarrow> (Inr v, calls')
      | (Inr None, calls') \<Rightarrow>
          (Inl (ForwardTransferError ReceiverOffline
                  [(''routingId'', CStr routingId'),
                   (''senderTransfer'', CStr (FullTransferState.transferId senderTransfer)),
                   (''recipientChannel'',
                      CStr (FullChannelState.channelAddress recipientChannel))]),
           calls')
      | (Inl (ForwardTransferError reason ctx), calls') \<Rightarrow>
          if shouldCancelSender ctx then
            cancelSenderTransferAndReturnError cancelCreatedTransfer routingId' senderTransfer
              reason [] calls'
          else (Inl (ForwardTransferError reason ctx), calls'))))))"

text \<open>
  The two helpers seen from outside: a helper records its call and answers as \<open>respond\<close>
  says, given the calls made so far and its arguments.
\<close>

definition recordingAttempt ::
  "(router_call list \<Rightarrow> ConditionalTransferParams \<Rightarrow> FullChannelState \<Rightarrow> bool \<Rightarrow>
    ForwardTransferError + node_response option) \<Rightarrow> attempt_helper" where
  "recordingAttempt respond params recipientChannel requireOnline' calls =
     (respond calls params recipientChannel requireOnline',
      calls @ [AttemptTransferWithCollateralization params recipientChannel requireOnline'])"

definition recordingCancel ::
  "(router_call list \<Rightarrow> forward_reason \<Rightarrow> FullTransferState \<Rightarrow> error_context \<Rightarrow>
    ForwardTransferError + node_response option) \<Rightarrow> cancel_helper" where
  "recordingCancel respond reason senderTransfer ctx calls =
     (respond calls reason senderTransfer ctx,
      calls @ [CancelCreatedTransfer reason senderTransfer ctx])"

section \<open>Router: forwarding a resolution\<close>

record ConditionalTransferResolvedPayload =
  channelAddress :: string
  transfer :: FullTransferState

datatype resolution_reason = IncomingChannelNotFound | ErrorResolvingTransfer

text \<open>
  The failures of \<open>forwardTransferResolution\<close>: a \<open>ForwardResolutionError\<close>, or the exception
  thrown when the \<open>meta\<close> of the resolved transfer is undefined and \<open>routingId\<close> is read
  from it.
\<close>

datatype ForwardResolutionError =
    ForwardResolutionError resolution_reason error_context
  | ResolutionThrown string

definition optStr :: "string option \<Rightarrow> ctx_value" where
  "optStr s = (case s of None \<Rightarrow> CUndefined | Some v \<Rightarrow> CStr v)"

definition optObj :: "obj option \<Rightarrow> ctx_value" where
  "optObj s = (case s of None \<Rightarrow> CUndefined | Some v \<Rightarrow> CObj v)"

definition resolveParams :: "FullTransferState \<Rightarrow> obj option \<Rightarrow> string \<Rightarrow> ResolveTransferParams" where
  "resolveParams incomingTransfer resolver routerPublicIdentifier =
     \<lparr>ResolveTransferParams.channelAddress = FullTransferState.channelAddress incomingTransfer,
      transferId = FullTransferState.transferId incomingTransfer,
      meta = Map.empty,
      transferResolver = resolver,
      publicIdentifier = routerPublicIdentifier\<rparr>"

definition forwardTransferResolution ::
  "router_services \<Rightarrow> ConditionalTransferResolvedPayload \<Rightarrow> string \<Rightarrow> string \<Rightarrow>
   (ForwardResolutionError + node_response) router_op" where
  "forwardTransferResolution svc data routerPublicIdentifier routerSignerAddress calls =
     (case FullTransferState.meta (ConditionalTransferResolvedPayload.transfer data) of
        None \<Rightarrow> (Inl (ResolutionThrown ''TypeError: cannot read routingId of undefined''), calls)
      | Some m \<Rightarrow>
     (let routingId' = routingId m;
          resolver = FullTransferState.transferResolver
                       (ConditionalTransferResolvedPayload.transfer data)
      in case getTransfersByRoutingId svc routingId' of
        Inl e \<Rightarrow>
          (Inl (ForwardResolutionError IncomingChannelNotFound
                  [(''routingId'', optStr routingId'), (''error'', CStr e)]), calls)
      | Inr transfers \<Rightarrow>
     (case find (\<lambda>t. responder t = routerSignerAddress) transfers of
        None \<Rightarrow>
          (Inl (ForwardResolutionError IncomingChannelNotFound
                  [(''routingId'', optStr routingId')]), calls)
      | Some incomingTransfer \<Rightarrow>
     (let params = resolveParams incomingTransfer resolver routerPublicIdentifier
      in case resolveTransfer svc calls (ResolutionPayload params) of
        Inl e \<Rightarrow>
          (Inl (ForwardResolutionError ErrorResolvingTransfer
                  [(''message'', CStr e),
                   (''routingId'', optStr routingId'),
                   (''transferResolver'', optObj resolver),
                   (''incomingTransferChannel'',
                      CStr (FullTransferState.channelAddress incomingTransfer)),
                   (''recipientTransferId'',
                      CStr (FullTransferState.transferId
                              (ConditionalTransferResolvedPayload.transfer data))),
                   (''recipientChannelAddress'',
                      CStr (ConditionalTransferResolvedPayload.channelAddress data))]),
           calls @
           [ResolveTransfer (ResolutionPayload params),
            QueueUpdate (FullTransferState.channelAddress incomingTransfer) TRANSFER_RESOLUTION
              (ResolutionPayload params)])
      | Inr v \<Rightarrow> (Inr v, calls @ [ResolveTransfer (ResolutionPayload params)])))))"

section \<open>Router: the check-in handler \<open>handleIsAlive\<close>\<close>

record IsAlivePayload =
  channelAddress :: string
  skipCheckIn :: bool







section \<open>Router: the transfer attempt and the store, from the specification\<close>

text \<open>
  Modelled from the spec: the collaborators of \<open>attemptTransferWithCollateralization\<close>, which
  is not among the sources. They are the three things step 6 of section 4.2 of the
  specification consults: whether the recipient channel has sufficient router-side balance,
  whether the recipient answers the liveness probe, and the \<open>create\<close> update itself.
\<close>

record transfer_services =
  sufficientCollateral :: "FullChannelState \<Rightarrow> ConditionalTransferParams \<Rightarrow> bool"
  recipientOnline :: "router_call list \<Rightarrow> FullChannelState \<Rightarrow> bool"
  conditionalTransfer ::
    "router_call list \<Rightarrow> ConditionalTransferParams \<Rightarrow> ForwardTransferError + node_response"

text \<open>
  Modelled from the spec: \<open>attemptTransferWithCollateralization\<close> of \<open>services/transfer\<close> is
  not among the sources. Section 4.2, step 6 of the specification: (a) when the recipient
  channel lacks router-side balance for the amount, collateral is requested; (b) the
  recipient's liveness is probed, and for an offline recipient the attempt returns an error
  flagged \<open>shouldCancelSender\<close> if \<open>requireOnline\<close> holds, and otherwise enqueues a
  \<open>TRANSFER_CREATION\<close> row and returns success with an empty value; (c) otherwise the
  \<open>create\<close> update is submitted.
\<close>

definition attemptTransferWithCollateralization :: "transfer_services \<Rightarrow> attempt_helper" where
  "attemptTransferWithCollateralization tsvc params recipientChannel requireOnline' calls =
     (let calls1 =
            (if sufficientCollateral tsvc recipientChannel params then calls
             else calls @ [RequestCollateral (FullChannelState.channelAddress recipientChannel)
                             (ConditionalTransferParams.assetId params)]);
          calls2 = calls1 @ [SendIsAlive (FullChannelState.channelAddress recipientChannel)]
      in if \<not> recipientOnline tsvc calls1 recipientChannel then
           (if requireOnline' then
              (Inl (ForwardTransferError ReceiverOffline [(''shouldCancelSender'', CBool True)]),
               calls2)
            else
              (Inr None,
               calls2 @ [QueueUpdate (FullChannelState.channelAddress recipientChannel)
                           TRANSFER_CREATION (CreationPayload params)]))
         else
           (map_sum (\<lambda>e. e) Some (conditionalTransfer tsvc calls2 params),
            calls2 @ [ConditionalTransfer params]))"

text \<open>
  Modelled from the spec: \<open>queueUpdate\<close> of the router store, which is not among the sources.
  Sections 3 and 4.2 of the specification: an enqueued update is a new row of status
  \<open>PENDING\<close>. \<open>newId\<close> names the row created at a given table size.
\<close>

definition queueUpdate ::
  "(nat \<Rightarrow> string) \<Rightarrow> string \<Rightarrow> RouterUpdateType \<Rightarrow> update_payload \<Rightarrow> QueuedUpdate list \<Rightarrow>
   QueuedUpdate list" where
  "queueUpdate newId address ty p table =
     table @ [\<lparr>id' = newId (length table), channelAddress = address, type = ty, payload = p,
               status = PENDING\<rparr>]"

text \<open>
  Modelled from the spec: \<open>setUpdateStatus\<close> of the router store, which is not among the
  sources. It changes the status of the row with the given id (section 5 of the
  specification: row-level mutation of the status).
\<close>

definition setUpdateStatus ::
  "string \<Rightarrow> RouterUpdateStatus \<Rightarrow> QueuedUpdate list \<Rightarrow> QueuedUpdate list" where
  "setUpdateStatus i st table =
     map (\<lambda>row. if id' row = i then row\<lparr>status := st\<rparr> else row) table"

text \<open>
  Modelled from the spec: the table of queued updates after a list of calls, which applies
  the store writes among the calls, in order, through the two store operations above.
\<close>

fun storeAfter ::
  "(nat \<Rightarrow> string) \<Rightarrow> router_call list \<Rightarrow> QueuedUpdate list \<Rightarrow> QueuedUpdate list" where
  "storeAfter newId [] table = table"
| "storeAfter newId (QueueUpdate address ty p # calls) table =
     storeAfter newId calls (queueUpdate newId address ty p table)"
| "storeAfter newId (SetUpdateStatus i st reason # calls) table =
     storeAfter newId calls (setUpdateStatus i st table)"
| "storeAfter newId (_ # calls) table = storeAfter newId calls table"

section \<open>Concrete inputs\<close>

text \<open>Inputs on which the theorems below are run.\<close>

definition profileA :: RebalanceProfile where
  "profileA = \<lparr>RebalanceProfile.chainId = 1337, assetId = ''0xA'', reclaimThreshold = ''200'', target = ''100'',
               collateralizeThreshold = ''50''\<rparr>"
definition profileB :: RebalanceProfile where
  "profileB = \<lparr>RebalanceProfile.chainId = 1337, assetId = ''0xB'', reclaimThreshold = ''20'', target = ''10'',
               collateralizeThreshold = ''5''\<rparr>"
definition profileB2 :: RebalanceProfile where
  "profileB2 = \<lparr>RebalanceProfile.chainId = 1337, assetId = ''0xB'', reclaimThreshold = ''2'', target = ''1'',
               collateralizeThreshold = ''0''\<rparr>"

definition badSig :: "OutboundChannelUpdateError" where
  "badSig = \<lparr>message = outbound_reason.BadSignatures, counterpartyError = None\<rparr>"
definition badSigCounterparty :: "OutboundChannelUpdateError" where
  "badSigCounterparty =
     \<lparr>message = OtherOutboundReason ''Counterparty failed'',
      counterpartyError = Some inbound_reason.BadSignatures\<rparr>"
definition timedOut :: "OutboundChannelUpdateError" where
  "timedOut =
     \<lparr>message = OtherOutboundReason ''Counterparty failed'',
      counterpartyError = Some (OtherInboundReason ''Timeout'')\<rparr>"

definition acceptAll :: "unit \<Rightarrow> string option" where
  "acceptAll params = None"

definition flakyDeposit :: "unit \<Rightarrow> nat \<Rightarrow> OutboundChannelUpdateError + string" where
  "flakyDeposit p n = (if n = 0 then Inl badSig else if n = 1 then Inl badSigCounterparty else Inr ''channel'')"

definition timedOutDeposit :: "unit \<Rightarrow> nat \<Rightarrow> OutboundChannelUpdateError + string" where
  "timedOutDeposit p n = Inl timedOut"

definition stubbornDeposit :: "unit \<Rightarrow> nat \<Rightarrow> OutboundChannelUpdateError + string" where
  "stubbornDeposit p n = Inl badSig"

definition restoredChannel :: FullChannelState where
  "restoredChannel =
     \<lparr>FullChannelState.channelAddress = ''0xCh'', aliceIdentifier = ''vectorA'', bobIdentifier = ''vectorB'',
      alice = ''0xA'', bob = ''0xB'',
      networkContext = \<lparr>NetworkContext.chainId = 1337, channelFactoryAddress = ''0xF'',
                        transferRegistryAddress = ''0xR'', providerUrl = ''http://localhost''\<rparr>,
      FullChannelState.nonce = 1,
      latestUpdate = \<lparr>ChannelUpdate.type = UpdateType.Setup, ChannelUpdate.nonce = 1, aliceSignature = Some ''sigA'',
                      bobSignature = Some ''sigB''\<rparr>,
      merkleRoot = ''0x00''\<rparr>"

definition depositedChannel :: FullChannelState where
  "depositedChannel =
     restoredChannel\<lparr>FullChannelState.nonce := 2,
       latestUpdate := \<lparr>ChannelUpdate.type = UpdateType.Deposit, ChannelUpdate.nonce = 2, aliceSignature = Some ''sigA'',
                        bobSignature = Some ''sigB''\<rparr>\<rparr>"

definition restoreParams :: RestoreStateParams where
  "restoreParams = \<lparr>RestoreStateParams.counterpartyIdentifier = ''vectorA'', RestoreStateParams.chainId = 1337\<rparr>"

definition restoreServices :: "FullChannelState \<Rightarrow> FullChannelState option \<Rightarrow> engine_services" where
  "restoreServices received existing =
     \<lparr>validateRestore = (\<lambda>_. None),
      signerAddress = ''0xB'',
      signerPublicIdentifier = ''vectorB'',
      sendRestoreRequest =
        (\<lambda>_ _. Inr (Some \<lparr>channel = Some received, activeTransfers = Some []\<rparr>)),
      sendRestoreAck = (\<lambda>_ _. Inr ()),
      getSignerAddressFromPublicIdentifier = (\<lambda>_. ''0xA''),
      getChannelAddress = (\<lambda>a b f c. Inr ''0xCh''),
      validateChannelUpdateSignatures = (\<lambda>_ _ _. Inr ()),
      generateMerkleTreeData = (\<lambda>_. ''0x00''),
      getChannelState = (\<lambda>_. Inr existing),
      saveChannelStateAndTransfers = (\<lambda>_ _. None)\<rparr>"

definition syncableError :: EngineError where
  "syncableError = EngineError ''Restore failed: syncable state'' ''0xCh''
     [(''existing'', CNum 1), (''toRestore'', CNum 2), (''signer'', CStr ''vectorB''),
      (''chainId'', CNum 1337), (''method'', CStr ''restoreState''),
      (''counterpartyIdentifier'', CStr ''vectorA'')]"

definition aliceServices :: protocol_services where
  "aliceServices =
     \<lparr>protocol_services.publicIdentifier = ''vectorA'',
      storeGetChannelState = (\<lambda>a. if a = ''0xCh'' then Some restoredChannel else None),
      acquireLock = (\<lambda>name isAlice counterparty. ''key-1''),
      syncOutbound = (\<lambda>params.
         if UpdateParams.type params = UpdateType.Deposit then Inr depositedChannel
         else Inl \<lparr>message = OtherOutboundReason ''Counterparty error'', counterpartyError = None\<rparr>)\<rparr>"

definition depositUpdate :: UpdateParams where
  "depositUpdate = \<lparr>UpdateParams.channelAddress = ''0xCh'', UpdateParams.type = UpdateType.Deposit,
                    UpdateParams.counterpartyIdentifier = [], details = Map.empty\<rparr>"

definition createUpdate :: UpdateParams where
  "createUpdate = \<lparr>UpdateParams.channelAddress = ''0xCh'', UpdateParams.type = UpdateType.Create,
                    UpdateParams.counterpartyIdentifier = [], details = Map.empty\<rparr>"

definition noExtra :: obj where
  "noExtra = Map.empty"


definition preImageResolver :: obj where
  "preImageResolver = [''preImage'' \<mapsto> ''0xpre'']"


definition cancelFailure :: ForwardTransferError where
  "cancelFailure = ForwardTransferError (OtherReason ''Failed to cancel sender transfer'') []"


definition attemptQueued :: attempt_helper where
  "attemptQueued = recordingAttempt (\<lambda>calls p c r. Inr None)"

definition cancelEnqueued :: cancel_helper where
  "cancelEnqueued = recordingCancel (\<lambda>calls r t c. Inr None)"

definition cancelFails :: cancel_helper where
  "cancelFails = recordingCancel (\<lambda>calls r t c. Inl cancelFailure)"

definition rowId :: "nat \<Rightarrow> string" where
  "rowId n = ''row-1''"

definition channelBC :: FullChannelState where
  "channelBC =
     depositedChannel\<lparr>FullChannelState.channelAddress := ''0xCh2'',
       aliceIdentifier := ''vectorB'', alice := ''0xB'',
       bobIdentifier := ''vectorC'', bob := ''0xC''\<rparr>"

definition routedMeta :: "string \<Rightarrow> obj \<Rightarrow> RouterMeta" where
  "routedMeta recipientIdentifier extra =
     \<lparr>routingId = Some ''0xR1'',
      path = Some [\<lparr>recipient = Some recipientIdentifier, recipientAssetId = None,
                    recipientChainId = None\<rparr>],
      requireOnline = None,
      rest = extra\<rparr>"

definition transferT1 :: "RouterMeta option \<Rightarrow> FullTransferState" where
  "transferT1 m =
     \<lparr>FullTransferState.transferId = ''0xT1'',
      FullTransferState.channelAddress = ''0xCh'',
      initiator = ''0xA'',
      responder = ''0xB'',
      transferDefinition = ''0xHashlock'',
      transferTimeout = 86400,
      transferState = [''lockHash'' \<mapsto> ''0xhash'', ''expiry'' \<mapsto> ''0'',
                       ''balance'' \<mapsto> ''[100, 0]''],
      FullTransferState.transferResolver = None,
      balance = \<lparr>Balance.amount = [''100'', ''0''], to = [''0xA'', ''0xB'']\<rparr>,
      FullTransferState.assetId = ''0xToken'',
      FullTransferState.meta = m\<rparr>"

definition createdPayload :: "RouterMeta option \<Rightarrow> ConditionalTransferCreatedPayload" where
  "createdPayload m =
     \<lparr>ConditionalTransferCreatedPayload.transfer = transferT1 m,
      conditionType = ''HashlockTransfer''\<rparr>"

definition routerServices :: router_services where
  "routerServices =
     \<lparr>getStateChannel = (\<lambda>a. if a = ''0xCh'' then Inr (Some depositedChannel) else Inr None),
      getStateChannelByParticipants =
        (\<lambda>counterparty c. if counterparty = ''vectorC'' \<and> c = 1337
                            then Inr (Some channelBC) else Inr None),
      getSwappedAmount = (\<lambda>a f fc t tc. Inl (''Swap not allowed'', Map.empty)),
      TRANSFER_DECREMENT = 4320,
      getTransfersByRoutingId =
        (\<lambda>r. if r = Some ''0xR1'' then Inr [transferT1 None] else Inr []),
      resolveTransfer = (\<lambda>calls p. Inl ''Timeout''),
      getQueuedUpdates = (\<lambda>calls a st. []),
      transferWithCollateralization = (\<lambda>calls p c. Inl (''Transfer failed'', Some ''Timeout'')),
      timeoutReason = ''Timeout''\<rparr>"

definition notFoundContext :: error_context where
  "notFoundContext =
     [(''participants'', CStrs [''vectorB'', ''vectorD'']), (''chainId'', CNum 1337),
      (''routingId'', CStr ''0xR1'')]"

definition outgoingParams :: "obj \<Rightarrow> ConditionalTransferParams" where
  "outgoingParams extra =
     transferParams routerServices (createdPayload (Some (routedMeta ''vectorC'' extra)))
       ''vectorB'' depositedChannel channelBC (Some ''100'') ''0xToken''"

definition offlineServices :: transfer_services where
  "offlineServices =
     \<lparr>sufficientCollateral = (\<lambda>c p. True),
      recipientOnline = (\<lambda>calls c. False),
      conditionalTransfer = (\<lambda>calls p. Inr (NodeResponse ''0xCh2'' ''0xT2''))\<rparr>"

definition queuedCreation :: "router_call list" where
  "queuedCreation =
     [SendIsAlive ''0xCh2'',
      QueueUpdate ''0xCh2'' TRANSFER_CREATION (CreationPayload (outgoingParams noExtra))]"

definition resolvedPayload :: ConditionalTransferResolvedPayload where
  "resolvedPayload =
     \<lparr>ConditionalTransferResolvedPayload.channelAddress = ''0xCh2'',
      transfer = (transferT1 (Some (routedMeta ''vectorC'' noExtra)))
        \<lparr>FullTransferState.transferId := ''0xT2'',
         FullTransferState.channelAddress := ''0xCh2'',
         initiator := ''0xB'', responder := ''0xC'',
         FullTransferState.transferResolver := Some preImageResolver\<rparr>\<rparr>"

definition senderResolve :: update_payload where
  "senderResolve =
     ResolutionPayload
       \<lparr>ResolveTransferParams.channelAddress = ''0xCh'', transferId = ''0xT1'',
        meta = Map.empty, transferResolver = Some preImageResolver,
        publicIdentifier = ''vectorB''\<rparr>"





section \<open>Properties\<close>

subsection \<open>Rebalance profiles\<close>

lemma find_first_match:
  "find P xs = Some x \<longleftrightarrow> (\<exists>pre post. xs = pre @ x # post \<and> P x \<and> (\<forall>y \<in> set pre. \<not> P y))"
proof (induction xs)
  case Nil
  then show ?case by simp
next
  case (Cons a xs)
  show ?case
  proof (cases "P a")
    case True
    have "(\<exists>pre post. a # xs = pre @ x # post \<and> P x \<and> (\<forall>y \<in> set pre. \<not> P y)) \<longleftrightarrow> a = x"
    proof
      assume "\<exists>pre post. a # xs = pre @ x # post \<and> P x \<and> (\<forall>y \<in> set pre. \<not> P y)"
      then obtain pre post where h: "a # xs = pre @ x # post" "\<forall>y \<in> set pre. \<not> P y" by blast
      with True show "a = x" by (cases pre) auto
    next
      assume "a = x"
      with True have "a # xs = [] @ x # xs \<and> P x \<and> (\<forall>y \<in> set []. \<not> P y)" by simp
      then show "\<exists>pre post. a # xs = pre @ x # post \<and> P x \<and> (\<forall>y \<in> set pre. \<not> P y)" by blast
    qed
    with True show ?thesis by simp
  next
    case False
    have "(\<exists>pre post. a # xs = pre @ x # post \<and> P x \<and> (\<forall>y \<in> set pre. \<not> P y)) \<longleftrightarrow>
          (\<exists>pre post. xs = pre @ x # post \<and> P x \<and> (\<forall>y \<in> set pre. \<not> P y))"
    proof
      assume "\<exists>pre post. a # xs = pre @ x # post \<and> P x \<and> (\<forall>y \<in> set pre. \<not> P y)"
      then obtain pre post where h: "a # xs = pre @ x # post" "P x" "\<forall>y \<in> set pre. \<not> P y"
        by blast
      with False obtain pre' where "pre = a # pre'" by (cases pre) auto
      with h have "xs = pre' @ x # post \<and> P x \<and> (\<forall>y \<in> set pre'. \<not> P y)" by simp
      then show "\<exists>pre post. xs = pre @ x # post \<and> P x \<and> (\<forall>y \<in> set pre. \<not> P y)" by blast
    next
      assume "\<exists>pre post. xs = pre @ x # post \<and> P x \<and> (\<forall>y \<in> set pre. \<not> P y)"
      then obtain pre post where "xs = pre @ x # post" "P x" "\<forall>y \<in> set pre. \<not> P y" by blast
      with False have "a # xs = (a # pre) @ x # post \<and> P x \<and> (\<forall>y \<in> set (a # pre). \<not> P y)"
        by simp
      then show "\<exists>pre post. a # xs = pre @ x # post \<and> P x \<and> (\<forall>y \<in> set pre. \<not> P y)" by blast
    qed
    with False Cons.IH show ?thesis by simp
  qed
qed

text \<open>
  C10. \<open>getRebalanceProfile\<close> succeeds with a profile exactly when that profile is the first
  configured one whose \<open>assetId\<close> and \<open>chainId\<close> both match (every profile before it fails to
  match), and it fails exactly when no configured profile matches; the failure is
  \<open>UnableToGetRebalanceProfile\<close> with the context \<open>{chainId, assetId}\<close> and nothing else.
\<close>

theorem getRebalanceProfile_first_match:
  "(getRebalanceProfile rebalanceProfiles cId aId = Inr p \<longleftrightarrow>
      (\<exists>pre post. rebalanceProfiles = pre @ p # post \<and> RebalanceProfile.assetId p = aId \<and> RebalanceProfile.chainId p = cId \<and>
         (\<forall>q \<in> set pre. \<not> (RebalanceProfile.assetId q = aId \<and> RebalanceProfile.chainId q = cId)))) \<and>
   (getRebalanceProfile rebalanceProfiles cId aId = Inl e \<longleftrightarrow>
      e = ForwardTransferError UnableToGetRebalanceProfile
            [(''chainId'', CNum cId), (''assetId'', CStr aId)] \<and>
      (\<forall>q \<in> set rebalanceProfiles. \<not> (RebalanceProfile.assetId q = aId \<and> RebalanceProfile.chainId q = cId)))"
proof -
  let ?P = "\<lambda>profile. RebalanceProfile.assetId profile = aId \<and> RebalanceProfile.chainId profile = cId"
  have ok: "getRebalanceProfile rebalanceProfiles cId aId = Inr p \<longleftrightarrow>
            find ?P rebalanceProfiles = Some p"
    by (simp add: getRebalanceProfile_def split: option.splits)
  have bad: "getRebalanceProfile rebalanceProfiles cId aId = Inl e \<longleftrightarrow>
             e = ForwardTransferError UnableToGetRebalanceProfile
                   [(''chainId'', CNum cId), (''assetId'', CStr aId)] \<and>
             find ?P rebalanceProfiles = None"
    by (auto simp: getRebalanceProfile_def split: option.splits)
  have first: "find ?P rebalanceProfiles = Some p \<longleftrightarrow>
     (\<exists>pre post. rebalanceProfiles = pre @ p # post \<and> ?P p \<and> (\<forall>q \<in> set pre. \<not> ?P q))"
    by (rule find_first_match)
  have none: "find ?P rebalanceProfiles = None \<longleftrightarrow> (\<forall>q \<in> set rebalanceProfiles. \<not> ?P q)"
    by (auto simp: find_None_iff)
  show ?thesis
    unfolding ok bad first none by simp
qed

theorem getRebalanceProfile_first_match_witness:
  "getRebalanceProfile [profileA, profileB, profileB2] 1337 ''0xB'' = Inr profileB \<and>
   getRebalanceProfile [profileA, profileB, profileB2] 1 ''0xB'' =
     Inl (ForwardTransferError UnableToGetRebalanceProfile
           [(''chainId'', CNum 1), (''assetId'', CStr ''0xB'')])"
proof -
  have split: "[profileA, profileB, profileB2] = [profileA] @ profileB # [profileB2]" by simp
  have pre: "\<forall>q \<in> set [profileA]. \<not> (RebalanceProfile.assetId q = ''0xB'' \<and> RebalanceProfile.chainId q = 1337)"
    by (simp add: profileA_def)
  have none: "\<forall>q \<in> set [profileA, profileB, profileB2]. \<not> (RebalanceProfile.assetId q = ''0xB'' \<and> RebalanceProfile.chainId q = 1)"
    by (simp add: profileA_def profileB_def profileB2_def)
  have match: "RebalanceProfile.assetId profileB = ''0xB'' \<and> RebalanceProfile.chainId profileB = 1337"
    by (simp add: profileB_def)
  from getRebalanceProfile_first_match
         [of "[profileA, profileB, profileB2]" 1337 "''0xB''" profileB]
       split pre match
  have "getRebalanceProfile [profileA, profileB, profileB2] 1337 ''0xB'' = Inr profileB"
    by blast
  moreover from getRebalanceProfile_first_match
         [of "[profileA, profileB, profileB2]" 1 "''0xB''" _
             "ForwardTransferError UnableToGetRebalanceProfile
                [(''chainId'', CNum 1), (''assetId'', CStr ''0xB'')]"] none
  have "getRebalanceProfile [profileA, profileB, profileB2] 1 ''0xB'' =
     Inl (ForwardTransferError UnableToGetRebalanceProfile
           [(''chainId'', CNum 1), (''assetId'', CStr ''0xB'')])"
    by blast
  ultimately show ?thesis by blast
qed

subsection \<open>Deposit retries\<close>

lemma depositLoop_spec:
  "depositLoop vd k r c = (r', n) \<Longrightarrow> r = vd (c - 1) \<Longrightarrow> 0 < c \<Longrightarrow>
   c \<le> n \<and> n \<le> c + k \<and> r' = vd (n - 1) \<and> (\<forall>i. c - 1 \<le> i \<and> i < n - 1 \<longrightarrow> retryable (vd i)) \<and>
   (n < c + k \<longrightarrow> \<not> retryable r')"
proof (induction k arbitrary: r c)
  case 0
  then show ?case by auto
next
  case (Suc k)
  show ?case
  proof (cases "retryable r")
    case False
    with Suc.prems show ?thesis
      by (auto simp: retryable_def split: sum.splits)
  next
    case True
    then obtain e where r: "r = Inl e" "recoveryFailed e"
      by (auto simp: retryable_def split: sum.splits)
    from Suc.prems(1) have rec: "depositLoop vd k (vd c) (Suc c) = (r', n)"
      unfolding r(1) using r(2) by simp
    have "vd c = vd (Suc c - 1)" by simp
    from Suc.IH[OF rec this]
    have ih: "Suc c \<le> n" "n \<le> Suc c + k" "r' = vd (n - 1)"
      "\<forall>i. c \<le> i \<and> i < n - 1 \<longrightarrow> retryable (vd i)" "n < Suc c + k \<longrightarrow> \<not> retryable r'"
      by auto
    have "\<forall>i. c - 1 \<le> i \<and> i < n - 1 \<longrightarrow> retryable (vd i)"
    proof (intro allI impI)
      fix i assume "c - 1 \<le> i \<and> i < n - 1"
      then consider "i = c - 1" | "c \<le> i \<and> i < n - 1" by linarith
      then show "retryable (vd i)"
        using ih(4) True Suc.prems(2) by cases auto
    qed
    with ih show ?thesis by auto
  qed
qed

lemma retryable_iff:
  "retryable r \<longleftrightarrow>
     (\<exists>error. r = Inl error \<and>
        (message error = outbound_reason.BadSignatures \<or>
         counterpartyError error = Some inbound_reason.BadSignatures))"
  by (cases r) (simp_all add: retryable_def recoveryFailed_def)

text \<open>
  C3. When the parameters pass validation, \<open>deposit\<close> calls the protocol deposit between one
  and four times: once, plus at most three retries. It returns the answer of the last call.
  Every call that was followed by a retry failed, and the failure was a \<open>BadSignatures\<close> one:
  the message of the outbound error is \<open>BadSignatures\<close>, or the counterparty error of its
  context is. So a success, or a failure of any other kind, is never retried and ends the
  loop. And when fewer than three retries were made, the last answer was not a
  \<open>BadSignatures\<close> failure: such a failure is retried as long as retries are left.
\<close>

theorem deposit_retries_only_bad_signatures:
  assumes "validate params = None"
    and "deposit validate vectorDeposit params = (res, calls)"
  shows "1 \<le> calls \<and> calls \<le> 4 \<and>
         res = map_sum Outbound id (vectorDeposit params (calls - 1)) \<and>
         (\<forall>i < calls - 1. \<exists>error. vectorDeposit params i = Inl error \<and>
            (message error = outbound_reason.BadSignatures \<or>
             counterpartyError error = Some inbound_reason.BadSignatures)) \<and>
         (calls < 4 \<longrightarrow>
            (\<forall>error. vectorDeposit params (calls - 1) = Inl error \<longrightarrow>
               message error \<noteq> outbound_reason.BadSignatures \<and>
               counterpartyError error \<noteq> Some inbound_reason.BadSignatures))"
proof -
  obtain r where loop: "depositLoop (vectorDeposit params) 3 (vectorDeposit params 0) 1 = (r, calls)"
    and res: "res = map_sum Outbound id r"
    using assms by (auto simp: deposit_def split: prod.splits)
  from depositLoop_spec[OF loop]
  have spec: "1 \<le> calls" "calls \<le> 4" "r = vectorDeposit params (calls - 1)"
    "\<forall>i < calls - 1. retryable (vectorDeposit params i)"
    "calls < 4 \<longrightarrow> \<not> retryable (vectorDeposit params (calls - 1))"
    by auto
  from spec(4) have retried: "\<forall>i < calls - 1. \<exists>error. vectorDeposit params i = Inl error \<and>
            (message error = outbound_reason.BadSignatures \<or>
             counterpartyError error = Some inbound_reason.BadSignatures)"
    unfolding retryable_iff .
  from spec(5) have last: "calls < 4 \<longrightarrow>
            (\<forall>error. vectorDeposit params (calls - 1) = Inl error \<longrightarrow>
               message error \<noteq> outbound_reason.BadSignatures \<and>
               counterpartyError error \<noteq> Some inbound_reason.BadSignatures)"
    unfolding retryable_iff by blast
  from spec(1,2,3) res retried last show ?thesis by blast
qed

theorem deposit_retries_only_bad_signatures_witness:
  "deposit acceptAll flakyDeposit () = (Inr ''channel'', 3) \<and>
   (\<exists>error. flakyDeposit () 0 = Inl error \<and> message error = outbound_reason.BadSignatures) \<and>
   (\<exists>error. flakyDeposit () 1 = Inl error \<and> message error \<noteq> outbound_reason.BadSignatures \<and>
      counterpartyError error = Some inbound_reason.BadSignatures) \<and>
   flakyDeposit () 2 = Inr ''channel'' \<and>
   deposit acceptAll timedOutDeposit () = (Inl (Outbound timedOut), 1) \<and>
   timedOutDeposit () 0 = Inl timedOut \<and>
   message timedOut \<noteq> outbound_reason.BadSignatures \<and>
   counterpartyError timedOut \<noteq> Some inbound_reason.BadSignatures \<and>
   deposit acceptAll stubbornDeposit () = (Inl (Outbound badSig), 4)"
proof -
  have run: "deposit acceptAll flakyDeposit () = (Inr ''channel'', 3)"
    by (simp add: deposit_def flakyDeposit_def badSig_def badSigCounterparty_def recoveryFailed_def
        acceptAll_def numeral_3_eq_3)
  have run': "deposit acceptAll timedOutDeposit () = (Inl (Outbound timedOut), 1)"
    by (simp add: deposit_def timedOutDeposit_def timedOut_def recoveryFailed_def
        acceptAll_def numeral_3_eq_3)
  have run'': "deposit acceptAll stubbornDeposit () = (Inl (Outbound badSig), 4)"
    by (simp add: deposit_def stubbornDeposit_def badSig_def recoveryFailed_def
        acceptAll_def numeral_3_eq_3)
  have answers: "flakyDeposit () 0 = Inl badSig" "flakyDeposit () 1 = Inl badSigCounterparty"
    "flakyDeposit () 2 = Inr ''channel''" "timedOutDeposit () 0 = Inl timedOut"
    by (simp_all add: flakyDeposit_def timedOutDeposit_def)
  from deposit_retries_only_bad_signatures[OF acceptAll_def run]
  have retried: "\<forall>i < 2. \<exists>error. flakyDeposit () i = Inl error \<and>
            (message error = outbound_reason.BadSignatures \<or>
             counterpartyError error = Some inbound_reason.BadSignatures)"
    by simp
  have first: "\<exists>error. flakyDeposit () 0 = Inl error \<and> message error = outbound_reason.BadSignatures"
    using retried[rule_format, of 0] answers(1) by (auto simp: badSig_def)
  have second: "\<exists>error. flakyDeposit () 1 = Inl error \<and> message error \<noteq> outbound_reason.BadSignatures \<and>
      counterpartyError error = Some inbound_reason.BadSignatures"
    using retried[rule_format, of 1] answers(2) by (auto simp: badSigCounterparty_def)
  from deposit_retries_only_bad_signatures[OF acceptAll_def run']
  have "\<forall>error. timedOutDeposit () 0 = Inl error \<longrightarrow>
               message error \<noteq> outbound_reason.BadSignatures \<and>
               counterpartyError error \<noteq> Some inbound_reason.BadSignatures"
    by simp
  with answers(4) have other: "message timedOut \<noteq> outbound_reason.BadSignatures"
    "counterpartyError timedOut \<noteq> Some inbound_reason.BadSignatures"
    by blast+
  from run run' run'' first second answers(3,4) other show ?thesis by blast
qed


subsection \<open>The lock around the outbound exchange\<close>

text \<open>
  C2. A run of \<open>executeUpdate\<close> either fails with \<open>ChannelNotFound\<close> before anything is
  done (an update other than \<open>setup\<close> on a channel the store does not have: no lock is
  taken and no exchange happens), or it does, in this order and nothing else: acquire the
  lock named by the channel address, run the outbound exchange, post the channel update
  event when the exchange succeeded, release the lock with the key the acquisition gave.
  So the lock is acquired before the exchange begins and released after it has ended,
  whether the exchange succeeded or failed, and the result is the result of the exchange.
\<close>

theorem executeUpdate_lock_brackets_exchange:
  assumes "executeUpdate svc params = (res, events)"
  shows "(events = [] \<and> res = Inl \<lparr>message = outbound_reason.ChannelNotFound, counterpartyError = None\<rparr> \<and>
          UpdateParams.type params \<noteq> UpdateType.Setup \<and>
          storeGetChannelState svc (UpdateParams.channelAddress params) = None) \<or>
         (\<exists>isAlice counterparty.
            events =
              AcquireLock (UpdateParams.channelAddress params) isAlice counterparty #
              SyncOutbound params #
              (case res of Inl _ \<Rightarrow> [] | Inr updatedChannel \<Rightarrow> [ChannelUpdateEvent updatedChannel]) @
              [ReleaseLock (UpdateParams.channelAddress params)
                 (acquireLock svc (UpdateParams.channelAddress params) isAlice counterparty)
                 isAlice counterparty] \<and>
            res = syncOutbound svc params)"
  using assms
  by (auto simp: executeUpdate_def lockedOperation_def Let_def
           split: if_splits option.splits sum.splits prod.splits)

theorem executeUpdate_lock_brackets_exchange_witness:
  "executeUpdate aliceServices depositUpdate =
     (Inr depositedChannel,
      [AcquireLock ''0xCh'' True ''vectorB'', SyncOutbound depositUpdate,
       ChannelUpdateEvent depositedChannel, ReleaseLock ''0xCh'' ''key-1'' True ''vectorB'']) \<and>
   executeUpdate aliceServices createUpdate =
     (Inl \<lparr>message = OtherOutboundReason ''Counterparty error'', counterpartyError = None\<rparr>,
      [AcquireLock ''0xCh'' True ''vectorB'', SyncOutbound createUpdate,
       ReleaseLock ''0xCh'' ''key-1'' True ''vectorB''])"
proof -
  obtain r1 e1 where run1: "executeUpdate aliceServices depositUpdate = (r1, e1)"
    by (cases "executeUpdate aliceServices depositUpdate")
  have s1: "storeGetChannelState aliceServices (UpdateParams.channelAddress depositUpdate) \<noteq> None"
    by (simp_all add: aliceServices_def depositUpdate_def)
  have o1: "syncOutbound aliceServices depositUpdate = Inr depositedChannel"
    by (simp_all add: aliceServices_def depositUpdate_def)
  have k: "\<And>n a c. acquireLock aliceServices n a c = ''key-1''"
    by (simp add: aliceServices_def)
  from executeUpdate_lock_brackets_exchange[OF run1] s1 o1
  obtain a1 c1 where "r1 = Inr depositedChannel"
    "e1 = [AcquireLock ''0xCh'' a1 c1, SyncOutbound depositUpdate,
       ChannelUpdateEvent depositedChannel, ReleaseLock ''0xCh'' ''key-1'' a1 c1]"
    by (auto simp: k depositUpdate_def)
  moreover have "e1 \<noteq> [] \<and> hd e1 = AcquireLock ''0xCh'' True ''vectorB''"
    using run1
    by (auto simp: executeUpdate_def lockedOperation_def aliceServices_def depositUpdate_def
        restoredChannel_def Let_def)
  ultimately have 1: "executeUpdate aliceServices depositUpdate =
     (Inr depositedChannel,
      [AcquireLock ''0xCh'' True ''vectorB'', SyncOutbound depositUpdate,
       ChannelUpdateEvent depositedChannel, ReleaseLock ''0xCh'' ''key-1'' True ''vectorB''])"
    using run1 by auto
  have 2: "executeUpdate aliceServices createUpdate =
     (Inl \<lparr>message = OtherOutboundReason ''Counterparty error'', counterpartyError = None\<rparr>,
      [AcquireLock ''0xCh'' True ''vectorB'', SyncOutbound createUpdate,
       ReleaseLock ''0xCh'' ''key-1'' True ''vectorB''])"
    by (simp add: executeUpdate_def lockedOperation_def aliceServices_def createUpdate_def
        restoredChannel_def Let_def)
  from 1 2 show ?thesis by simp
qed

subsection \<open>Restoring a channel\<close>

lemma verifyRestoreData_None:
  "verifyRestoreData svc params ch transfers = None \<longleftrightarrow> restoreChecks svc params ch transfers"
  by (auto simp: verifyRestoreData_def restoreChecks_def Let_def isError_def
        split: sum.splits option.splits if_splits prod.splits)

lemma restoreState_rejects:
  assumes "validateRestore svc params = None"
    and "sendRestoreRequest svc (RestoreStateParams.chainId params)
           (RestoreStateParams.counterpartyIdentifier params) =
         Inr (Some \<lparr>channel = Some ch, activeTransfers = Some transfers\<rparr>)"
    and "\<not> restoreChecks svc params ch transfers"
  shows "\<exists>err. restoreState svc params = (Inl (Failed err),
            [SendRestoreRequest (RestoreStateParams.chainId params)
                (RestoreStateParams.counterpartyIdentifier params),
             SendRestoreError err (RestoreStateParams.counterpartyIdentifier params)])"
proof -
  from assms(3) obtain error ctx where "verifyRestoreData svc params ch transfers = Some (error, ctx)"
    using verifyRestoreData_None[of svc params ch transfers] by (cases "verifyRestoreData svc params ch transfers") auto
  with assms(1,2) show ?thesis
    by (simp add: restoreState_def Let_def sendResponseToCounterparty_def restoreFailure_def)
qed

lemma restoreState_accepts:
  assumes "validateRestore svc params = None"
    and "sendRestoreRequest svc (RestoreStateParams.chainId params)
           (RestoreStateParams.counterpartyIdentifier params) =
         Inr (Some \<lparr>channel = Some ch, activeTransfers = Some transfers\<rparr>)"
    and "restoreChecks svc params ch transfers"
  shows "restoreState svc params =
     (let request = SendRestoreRequest (RestoreStateParams.chainId params)
                      (RestoreStateParams.counterpartyIdentifier params)
      in case saveChannelStateAndTransfers svc ch transfers of
        Some e \<Rightarrow>
          (case sendResponseToCounterparty svc params ch
                  (Some ''Restore failed: could not save state'') [(''error'', CStr e)] of
             (res, events) \<Rightarrow> (res, request # events))
      | None \<Rightarrow>
          (case sendResponseToCounterparty svc params ch None [] of
             (returnVal, events) \<Rightarrow>
               (returnVal,
                [request, SaveChannelStateAndTransfers ch transfers] @ events @
                [PostRestoreStateEvent (FullChannelState.channelAddress ch) (aliceIdentifier ch)
                   (bobIdentifier ch) (RestoreStateParams.chainId params)])))"
proof -
  from assms(3) have "verifyRestoreData svc params ch transfers = None"
    by (simp add: verifyRestoreData_None)
  with assms(1,2) show ?thesis
    by (simp add: restoreState_def Let_def)
qed

lemma sendResponseToCounterparty_events:
  "sendResponseToCounterparty svc params ch error ctx = (res, events) \<Longrightarrow>
   (\<forall>e \<in> set events. (\<exists>a b. e = SendRestoreAck a b) \<or> (\<exists>err c. e = SendRestoreError err c)) \<and>
   (\<not> isError res \<longrightarrow> res = Inr ch \<and> error = None)"
  by (auto simp: sendResponseToCounterparty_def restoreFailure_def Let_def isError_def
      split: option.splits sum.splits)

text \<open>
  C1 (as amended). For a restore request whose answer carries a channel and its active
  transfers, \<open>restoreState\<close> verifies the Create2 address, both signatures, the merkle root
  and the nonce; the nonce check demands that the restored nonce exceeds the local one by
  more than one unless the latest update of the restored channel is a \<open>setup\<close> update. When
  a check fails, the only things done are the request and the error reply to the
  counterparty, and the result is that error. The store is overwritten and the restore event
  is emitted exactly when every check passed (and the store accepted the write), and a
  successful result returns the received channel only then.
\<close>

theorem restoreState_checks_before_overwrite:
  assumes valid: "validateRestore svc params = None"
    and data: "sendRestoreRequest svc (RestoreStateParams.chainId params)
           (RestoreStateParams.counterpartyIdentifier params) =
         Inr (Some \<lparr>channel = Some ch, activeTransfers = Some transfers\<rparr>)"
    and run: "restoreState svc params = (res, events)"
  shows "(\<not> restoreChecks svc params ch transfers \<longrightarrow>
            (\<exists>err. res = Inl (Failed err) \<and>
               events = [SendRestoreRequest (RestoreStateParams.chainId params)
                           (RestoreStateParams.counterpartyIdentifier params),
                         SendRestoreError err (RestoreStateParams.counterpartyIdentifier params)])) \<and>
         (SaveChannelStateAndTransfers ch transfers \<in> set events \<longleftrightarrow>
            restoreChecks svc params ch transfers \<and>
            saveChannelStateAndTransfers svc ch transfers = None) \<and>
         ((\<exists>a b c d. PostRestoreStateEvent a b c d \<in> set events) \<longleftrightarrow>
            restoreChecks svc params ch transfers \<and>
            saveChannelStateAndTransfers svc ch transfers = None) \<and>
         (\<not> isError res \<longrightarrow>
            res = Inr ch \<and> restoreChecks svc params ch transfers \<and>
            saveChannelStateAndTransfers svc ch transfers = None)"
proof (cases "restoreChecks svc params ch transfers")
  case False
  from restoreState_rejects[OF valid data False] run
  show ?thesis using False by (auto simp: isError_def)
next
  case True
  note acc = restoreState_accepts[OF valid data True]
  show ?thesis
  proof (cases "saveChannelStateAndTransfers svc ch transfers")
    case None
    obtain rv evs where r: "sendResponseToCounterparty svc params ch None [] = (rv, evs)"
      by (cases "sendResponseToCounterparty svc params ch None []")
    from sendResponseToCounterparty_events[OF r]
    have evs: "\<forall>e \<in> set evs. (\<exists>a b. e = SendRestoreAck a b) \<or> (\<exists>err c. e = SendRestoreError err c)"
      and rv: "\<not> isError rv \<longrightarrow> rv = Inr ch" by auto
    from acc run None r have "res = rv"
      and "events = [SendRestoreRequest (RestoreStateParams.chainId params)
                      (RestoreStateParams.counterpartyIdentifier params),
                     SaveChannelStateAndTransfers ch transfers] @ evs @
                [PostRestoreStateEvent (FullChannelState.channelAddress ch) (aliceIdentifier ch)
                   (bobIdentifier ch) (RestoreStateParams.chainId params)]"
      by (simp_all add: Let_def)
    with True None rv show ?thesis by auto
  next
    case (Some e)
    obtain rv evs where r: "sendResponseToCounterparty svc params ch
        (Some ''Restore failed: could not save state'') [(''error'', CStr e)] = (rv, evs)"
      by (cases "sendResponseToCounterparty svc params ch
        (Some ''Restore failed: could not save state'') [(''error'', CStr e)]")
    from sendResponseToCounterparty_events[OF r]
    have evs: "\<forall>e \<in> set evs. (\<exists>a b. e = SendRestoreAck a b) \<or> (\<exists>err c. e = SendRestoreError err c)"
      and rv: "isError rv" by auto
    from acc run Some r have "res = rv"
      and "events = SendRestoreRequest (RestoreStateParams.chainId params)
                      (RestoreStateParams.counterpartyIdentifier params) # evs"
      by (simp_all add: Let_def)
    with True Some rv evs show ?thesis by auto
  qed
qed

theorem restoreState_checks_before_overwrite_witness:
  "restoreState (restoreServices depositedChannel (Some restoredChannel)) restoreParams =
     (Inl (Failed syncableError),
      [SendRestoreRequest 1337 ''vectorA'', SendRestoreError syncableError ''vectorA'']) \<and>
   \<not> restoreChecks (restoreServices depositedChannel (Some restoredChannel)) restoreParams
       depositedChannel [] \<and>
   SaveChannelStateAndTransfers depositedChannel [] \<notin>
     set [SendRestoreRequest 1337 ''vectorA'', SendRestoreError syncableError ''vectorA'']"
proof -
  let ?svc = "restoreServices depositedChannel (Some restoredChannel)"
  have valid: "validateRestore ?svc restoreParams = None"
    by (simp add: restoreServices_def)
  have data: "sendRestoreRequest ?svc (RestoreStateParams.chainId restoreParams)
           (RestoreStateParams.counterpartyIdentifier restoreParams) =
         Inr (Some \<lparr>channel = Some depositedChannel, activeTransfers = Some []\<rparr>)"
    by (simp add: restoreServices_def)
  have run: "restoreState ?svc restoreParams =
     (Inl (Failed syncableError),
      [SendRestoreRequest 1337 ''vectorA'', SendRestoreError syncableError ''vectorA''])"
    by (simp add: restoreState_def verifyRestoreData_def sendResponseToCounterparty_def
      restoreFailure_def syncableError_def depositedChannel_def
      restoreServices_def restoredChannel_def restoreParams_def existingNonce_def Let_def)
  have save: "saveChannelStateAndTransfers ?svc depositedChannel [] = None"
    by (simp add: restoreServices_def)
  have absent: "SaveChannelStateAndTransfers depositedChannel [] \<notin>
     set [SendRestoreRequest 1337 ''vectorA'', SendRestoreError syncableError ''vectorA'']"
    by simp
  from restoreState_checks_before_overwrite[OF valid data run] save absent
  have "\<not> restoreChecks ?svc restoreParams depositedChannel []"
    by blast
  with run absent show ?thesis by blast
qed

text \<open>
  C1, the claim as stated, fails for a channel that has only been set up: the restored nonce is 1,
  the requester has no channel (local nonce 0), so the restored nonce exceeds the local one by
  exactly one, and yet the restore goes through, overwrites the store and emits the event.
\<close>

theorem restoreState_setup_nonce_counterexample:
  "FullChannelState.nonce restoredChannel - existingNonce None = 1 \<and>
   getChannelState (restoreServices restoredChannel None) ''0xCh'' = Inr None \<and>
   restoreState (restoreServices restoredChannel None) restoreParams =
     (Inr restoredChannel,
      [SendRestoreRequest 1337 ''vectorA'',
       SaveChannelStateAndTransfers restoredChannel [],
       SendRestoreAck ''0xCh'' ''vectorA'',
       PostRestoreStateEvent ''0xCh'' ''vectorA'' ''vectorB'' 1337])"
  by (simp add: restoreState_def verifyRestoreData_def sendResponseToCounterparty_def
      restoreServices_def restoredChannel_def restoreParams_def existingNonce_def Let_def)

subsection \<open>Forwarding a created transfer\<close>




lemma forwardTransferCreation_routed:
  assumes info: "forwardingInfo (spreadMeta (FullTransferState.meta (ConditionalTransferCreatedPayload.transfer data))) =
                   Some (rid, p, recipientIdentifier)"
    and sender: "getStateChannel svc (FullTransferState.channelAddress (ConditionalTransferCreatedPayload.transfer data)) =
                   Inr (Some senderChannel)"
    and asset: "ra = (case recipientAssetId p of
                        None \<Rightarrow> FullTransferState.assetId (ConditionalTransferCreatedPayload.transfer data) | Some a \<Rightarrow> a)"
    and chain: "rc = (case recipientChainId p of
                        None \<Rightarrow> NetworkContext.chainId (networkContext senderChannel)
                      | Some c \<Rightarrow> c)"
    and swap: "inflightSwap svc (ConditionalTransferCreatedPayload.transfer data)
                 (NetworkContext.chainId (networkContext senderChannel)) ra rc = Inr recipientAmount"
  shows "forwardTransferCreation svc attemptHelper cancelHelper data routerPublicIdentifier
           routerSignerAddress calls =
     (case getStateChannelByParticipants svc recipientIdentifier rc of
        Inl e \<Rightarrow>
          cancelSenderTransferAndReturnError cancelHelper rid (ConditionalTransferCreatedPayload.transfer data)
            RecipientChannelNotFound [(''storeError'', CStr e)] calls
      | Inr None \<Rightarrow>
          cancelSenderTransferAndReturnError cancelHelper rid (ConditionalTransferCreatedPayload.transfer data)
            RecipientChannelNotFound
            [(''participants'', CStrs [routerPublicIdentifier, recipientIdentifier]),
             (''chainId'', CNum rc)] calls
      | Inr (Some rch) \<Rightarrow>
          (case attemptHelper
                  (transferParams svc data routerPublicIdentifier senderChannel rch
                     recipientAmount ra)
                  rch
                  (case requireOnline (spreadMeta (FullTransferState.meta (ConditionalTransferCreatedPayload.transfer data))) of
                     None \<Rightarrow> False | Some b \<Rightarrow> b)
                  calls of
             (Inr (Some v), calls') \<Rightarrow> (Inr v, calls')
           | (Inr None, calls') \<Rightarrow>
               (Inl (ForwardTransferError ReceiverOffline
                       [(''routingId'', CStr rid),
                        (''senderTransfer'', CStr (FullTransferState.transferId (ConditionalTransferCreatedPayload.transfer data))),
                        (''recipientChannel'',
                           CStr (FullChannelState.channelAddress rch))]),
                calls')
           | (Inl (ForwardTransferError reason ctx), calls') \<Rightarrow>
               if shouldCancelSender ctx then
                 cancelSenderTransferAndReturnError cancelHelper rid (ConditionalTransferCreatedPayload.transfer data) reason []
                   calls'
               else (Inl (ForwardTransferError reason ctx), calls')))"
  using info sender swap unfolding asset chain
  by (simp add: forwardTransferCreation_def Let_def split: sum.split option.split)

lemma forwardTransferCreation_run:
  "forwardTransferCreation routerServices attemptHelper cancelHelper
     (createdPayload (Some (routedMeta ''vectorC'' extra))) ''vectorB'' ''0xB'' [] =
   (case attemptHelper (outgoingParams extra) channelBC False [] of
             (Inr (Some v), calls') \<Rightarrow> (Inr v, calls')
           | (Inr None, calls') \<Rightarrow>
               (Inl (ForwardTransferError ReceiverOffline
                       [(''routingId'', CStr ''0xR1''),
                        (''senderTransfer'', CStr ''0xT1''),
                        (''recipientChannel'', CStr ''0xCh2'')]),
                calls')
           | (Inl (ForwardTransferError reason ctx), calls') \<Rightarrow>
               if shouldCancelSender ctx then
                 cancelSenderTransferAndReturnError cancelHelper ''0xR1''
                   (transferT1 (Some (routedMeta ''vectorC'' extra))) reason [] calls'
               else (Inl (ForwardTransferError reason ctx), calls'))"
proof -
  let ?data = "createdPayload (Some (routedMeta ''vectorC'' extra))"
  let ?t = "ConditionalTransferCreatedPayload.transfer ?data"
  let ?p = "\<lparr>recipient = Some ''vectorC'', recipientAssetId = None, recipientChainId = None\<rparr>"
  have info: "forwardingInfo (spreadMeta (FullTransferState.meta ?t)) =
                Some (''0xR1'', ?p, ''vectorC'')"
    by (simp add: createdPayload_def transferT1_def routedMeta_def spreadMeta_def
        forwardingInfo_def falsy_def firstOf_def Let_def)
  have sender: "getStateChannel routerServices (FullTransferState.channelAddress ?t) =
                  Inr (Some depositedChannel)"
    by (simp add: createdPayload_def transferT1_def routerServices_def)
  have asset: "''0xToken'' = (case recipientAssetId ?p of
                        None \<Rightarrow> FullTransferState.assetId ?t | Some a \<Rightarrow> a)"
    by (simp add: createdPayload_def transferT1_def)
  have chain: "1337 = (case recipientChainId ?p of
                        None \<Rightarrow> NetworkContext.chainId (networkContext depositedChannel)
                      | Some c \<Rightarrow> c)"
    by (simp add: depositedChannel_def restoredChannel_def)
  have swap: "inflightSwap routerServices ?t
                 (NetworkContext.chainId (networkContext depositedChannel)) ''0xToken'' 1337 =
              Inr (Some ''100'')"
    by (simp add: inflightSwap_def createdPayload_def transferT1_def firstOf_def
        depositedChannel_def restoredChannel_def Let_def)
  have found: "getStateChannelByParticipants routerServices ''vectorC'' 1337 =
                 Inr (Some channelBC)"
    by (simp add: routerServices_def)
  have online: "(case requireOnline (spreadMeta (FullTransferState.meta ?t)) of
                   None \<Rightarrow> False | Some b \<Rightarrow> b) = False"
    by (simp add: createdPayload_def transferT1_def routedMeta_def spreadMeta_def)
  have ids: "FullTransferState.transferId ?t = ''0xT1''"
    "FullChannelState.channelAddress channelBC = ''0xCh2''"
    "?t = transferT1 (Some (routedMeta ''vectorC'' extra))"
    by (simp_all add: createdPayload_def transferT1_def channelBC_def)
  show ?thesis
    unfolding forwardTransferCreation_routed[OF info sender asset chain swap] found
      outgoingParams_def
    using online ids
    by (simp split: prod.split sum.split option.split ForwardTransferError.split)
qed

text \<open>
  C6 (as amended). When the routing fields are valid, the sender channel is found and the
  swap step does not fail, but the lookup of the recipient channel by router, recipient and
  chain fails or finds nothing, \<open>forwardTransferCreation\<close> calls \<open>cancelCreatedTransfer\<close> with
  the reason \<open>RecipientChannelNotFound\<close> on the sender transfer. If that helper returns a
  value, the result is the \<open>RecipientChannelNotFound\<close> failure whose context reports
  \<open>senderTransferCancellation\<close> as \<open>executed\<close> for a non-empty value and as \<open>enqueued\<close> for
  an empty one; if the helper itself fails, its error is the result.
\<close>

theorem forwardTransferCreation_recipient_channel_not_found:
  fixes svc :: router_services and data :: ConditionalTransferCreatedPayload
  defines "t \<equiv> ConditionalTransferCreatedPayload.transfer data"
  assumes info: "forwardingInfo (spreadMeta (FullTransferState.meta t)) =
                   Some (rid, p, recipientIdentifier)"
    and sender: "getStateChannel svc (FullTransferState.channelAddress t) =
                   Inr (Some senderChannel)"
    and asset: "ra = (case recipientAssetId p of
                        None \<Rightarrow> FullTransferState.assetId t | Some a \<Rightarrow> a)"
    and chain: "rc = (case recipientChainId p of
                        None \<Rightarrow> NetworkContext.chainId (networkContext senderChannel)
                      | Some c \<Rightarrow> c)"
    and swap: "inflightSwap svc t
                 (NetworkContext.chainId (networkContext senderChannel)) ra rc = Inr recipientAmount"
    and missing: "getStateChannelByParticipants svc recipientIdentifier rc = found"
                 "found = Inr None \<or> isError found"
    and ctx: "ctx = (case found of
                 Inl e \<Rightarrow> [(''storeError'', CStr e)]
               | Inr _ \<Rightarrow> [(''participants'', CStrs [routerPublicIdentifier, recipientIdentifier]),
                           (''chainId'', CNum rc)])"
    and cancelled: "cancelHelper RecipientChannelNotFound t (ctx @ [(''routingId'', CStr rid)])
                      calls = (cancelRes, calls')"
  shows "forwardTransferCreation svc attemptHelper cancelHelper data routerPublicIdentifier
           routerSignerAddress calls =
         (case cancelRes of
            Inl cancelError \<Rightarrow> Inl cancelError
          | Inr cancelValue \<Rightarrow>
              Inl (ForwardTransferError RecipientChannelNotFound
                     (ctx @
                      [(''senderChannel'', CStr (FullTransferState.channelAddress t)),
                       (''senderTransfer'', CStr (FullTransferState.transferId t)),
                       (''routingId'', CStr rid),
                       (''senderTransferCancellation'',
                          CStr (case cancelValue of
                                  Some executed \<Rightarrow> ''executed''
                                | None \<Rightarrow> ''enqueued''))])),
          calls')"
proof -
  note routed = forwardTransferCreation_routed[OF info[unfolded t_def] sender[unfolded t_def]
      asset[unfolded t_def] chain swap[unfolded t_def],
      of attemptHelper cancelHelper routerPublicIdentifier routerSignerAddress calls]
  from missing(2) show ?thesis
  proof
    assume "found = Inr None"
    with routed missing(1) ctx cancelled show ?thesis
      by (auto simp: cancelSenderTransferAndReturnError_def t_def split: sum.splits option.splits)
  next
    assume "isError found"
    then obtain e where "found = Inl e" by (cases found) (auto simp: isError_def)
    with routed missing(1) ctx cancelled show ?thesis
      by (auto simp: cancelSenderTransferAndReturnError_def t_def split: sum.splits option.splits)
  qed
qed

theorem forwardTransferCreation_recipient_channel_not_found_witness:
  "forwardTransferCreation routerServices attemptQueued cancelEnqueued
     (createdPayload (Some (routedMeta ''vectorD'' noExtra))) ''vectorB'' ''0xB'' [] =
   (Inl (ForwardTransferError RecipientChannelNotFound
           [(''participants'', CStrs [''vectorB'', ''vectorD'']), (''chainId'', CNum 1337),
            (''senderChannel'', CStr ''0xCh''), (''senderTransfer'', CStr ''0xT1''),
            (''routingId'', CStr ''0xR1''),
            (''senderTransferCancellation'', CStr ''enqueued'')]),
    [CancelCreatedTransfer RecipientChannelNotFound
       (transferT1 (Some (routedMeta ''vectorD'' noExtra))) notFoundContext])"
proof -
  let ?data = "createdPayload (Some (routedMeta ''vectorD'' noExtra))"
  let ?t = "ConditionalTransferCreatedPayload.transfer ?data"
  let ?p = "\<lparr>recipient = Some ''vectorD'', recipientAssetId = None, recipientChainId = None\<rparr>"
  have t: "?t = transferT1 (Some (routedMeta ''vectorD'' noExtra))"
    by (simp add: createdPayload_def)
  have info: "forwardingInfo (spreadMeta (FullTransferState.meta ?t)) =
                Some (''0xR1'', ?p, ''vectorD'')"
    by (simp add: createdPayload_def transferT1_def routedMeta_def spreadMeta_def
        forwardingInfo_def falsy_def firstOf_def Let_def)
  have sender: "getStateChannel routerServices (FullTransferState.channelAddress ?t) =
                  Inr (Some depositedChannel)"
    by (simp add: createdPayload_def transferT1_def routerServices_def)
  have asset: "''0xToken'' = (case recipientAssetId ?p of
                        None \<Rightarrow> FullTransferState.assetId ?t | Some a \<Rightarrow> a)"
    by (simp add: createdPayload_def transferT1_def)
  have chain: "1337 = (case recipientChainId ?p of
                        None \<Rightarrow> NetworkContext.chainId (networkContext depositedChannel)
                      | Some c \<Rightarrow> c)"
    by (simp add: depositedChannel_def restoredChannel_def)
  have swap: "inflightSwap routerServices ?t
                 (NetworkContext.chainId (networkContext depositedChannel)) ''0xToken'' 1337 =
              Inr (Some ''100'')"
    by (simp add: inflightSwap_def createdPayload_def transferT1_def firstOf_def
        depositedChannel_def restoredChannel_def Let_def)
  have missing: "getStateChannelByParticipants routerServices ''vectorD'' 1337 = Inr None"
    by (simp add: routerServices_def)
  have ctx: "[(''participants'', CStrs [''vectorB'', ''vectorD'']), (''chainId'', CNum 1337)] =
             (case (Inr None :: string + FullChannelState option) of
                 Inl e \<Rightarrow> [(''storeError'', CStr e)]
               | Inr _ \<Rightarrow> [(''participants'', CStrs [''vectorB'', ''vectorD'']),
                           (''chainId'', CNum 1337)])"
    by simp
  have cancelled: "cancelEnqueued RecipientChannelNotFound ?t
       ([(''participants'', CStrs [''vectorB'', ''vectorD'']), (''chainId'', CNum 1337)] @
        [(''routingId'', CStr ''0xR1'')]) [] =
     (Inr None, [CancelCreatedTransfer RecipientChannelNotFound
       (transferT1 (Some (routedMeta ''vectorD'' noExtra))) notFoundContext])"
    by (simp add: recordingCancel_def cancelEnqueued_def notFoundContext_def createdPayload_def)
  have found: "(Inr None :: string + FullChannelState option) = Inr None \<or>
               isError (Inr None :: string + FullChannelState option)"
    by simp
  from forwardTransferCreation_recipient_channel_not_found
         [where svc = routerServices and data = ?data and rid = "''0xR1''" and p = ?p
            and recipientIdentifier = "''vectorD''" and senderChannel = depositedChannel
            and ra = "''0xToken''" and rc = 1337 and recipientAmount = "Some ''100''"
            and found = "Inr None" and routerPublicIdentifier = "''vectorB''"
            and ctx = "[(''participants'', CStrs [''vectorB'', ''vectorD'']),
                        (''chainId'', CNum 1337)]"
            and cancelHelper = cancelEnqueued
            and calls = "[]" and cancelRes = "Inr None"
            and calls' = "[CancelCreatedTransfer RecipientChannelNotFound
               (transferT1 (Some (routedMeta ''vectorD'' noExtra))) notFoundContext]"
            and attemptHelper = attemptQueued
            and routerSignerAddress = "''0xB''",
          OF info sender asset chain swap missing found ctx cancelled]
  show ?thesis
    by (simp add: createdPayload_def transferT1_def)
qed

text \<open>
  C6, the claim as stated, fails when the cancellation can be neither executed nor enqueued: no
  channel exists for the recipient, the cancellation helper returns its own error, and that
  error, not a \<open>RecipientChannelNotFound\<close> failure, is what \<open>forwardTransferCreation\<close> returns.
\<close>

theorem forwardTransferCreation_cancel_failure_counterexample:
  "getStateChannelByParticipants routerServices ''vectorD'' 1337 = Inr None \<and>
   forwardTransferCreation routerServices attemptQueued cancelFails
     (createdPayload (Some (routedMeta ''vectorD'' noExtra))) ''vectorB'' ''0xB'' [] =
   (Inl (ForwardTransferError (OtherReason ''Failed to cancel sender transfer'') []),
    [CancelCreatedTransfer RecipientChannelNotFound
       (transferT1 (Some (routedMeta ''vectorD'' noExtra))) notFoundContext])"
  by (simp add: forwardTransferCreation_def cancelSenderTransferAndReturnError_def
      recordingCancel_def cancelFails_def routerServices_def createdPayload_def routedMeta_def
      transferT1_def spreadMeta_def forwardingInfo_def falsy_def firstOf_def
      inflightSwap_def depositedChannel_def restoredChannel_def cancelFailure_def
      notFoundContext_def Let_def)




text \<open>
  C5 (as amended). The transfer attempt is the one modelled from the specification. When
  \<open>forwardTransferCreation\<close> reaches the attempt, the recipient is offline and \<open>requireOnline\<close>
  is absent or false, then: the attempt succeeds with an empty value; beyond a possible
  collateral request and the liveness probe, the only call made is the enqueueing of a
  \<open>TRANSFER_CREATION\<close> update with the outgoing parameters, which the store keeps as a row of
  status \<open>PENDING\<close>; no cancellation helper is called, whatever it is; and
  \<open>forwardTransferCreation\<close> returns the \<open>ReceiverOffline\<close> error, as a failure, with the
  routing id, the sender transfer and the recipient channel.
\<close>

theorem forwardTransferCreation_receiver_offline_queued:
  fixes svc :: router_services and data :: ConditionalTransferCreatedPayload
  defines "t \<equiv> ConditionalTransferCreatedPayload.transfer data"
  defines "m \<equiv> spreadMeta (FullTransferState.meta t)"
  assumes info: "forwardingInfo m = Some (rid, p, recipientIdentifier)"
    and sender: "getStateChannel svc (FullTransferState.channelAddress t) =
                   Inr (Some senderChannel)"
    and asset: "ra = (case recipientAssetId p of
                        None \<Rightarrow> FullTransferState.assetId t | Some a \<Rightarrow> a)"
    and chain: "rc = (case recipientChainId p of
                        None \<Rightarrow> NetworkContext.chainId (networkContext senderChannel)
                      | Some c \<Rightarrow> c)"
    and swap: "inflightSwap svc t
                 (NetworkContext.chainId (networkContext senderChannel)) ra rc = Inr recipientAmount"
    and recipient: "getStateChannelByParticipants svc recipientIdentifier rc =
                      Inr (Some recipientCh)"
    and params: "params = transferParams svc data routerPublicIdentifier senderChannel
                            recipientCh recipientAmount ra"
    and notRequired: "requireOnline m \<in> {None, Some False}"
    and collateral: "collateral =
           (if sufficientCollateral tsvc recipientCh params then []
            else [RequestCollateral (FullChannelState.channelAddress recipientCh) ra])"
    and offline: "\<not> recipientOnline tsvc (calls @ collateral) recipientCh"
    and queued: "queued = collateral @
           [SendIsAlive (FullChannelState.channelAddress recipientCh),
            QueueUpdate (FullChannelState.channelAddress recipientCh) TRANSFER_CREATION
              (CreationPayload params)]"
  shows "attemptTransferWithCollateralization tsvc params recipientCh False calls =
           (Inr None, calls @ queued) \<and>
         forwardTransferCreation svc (attemptTransferWithCollateralization tsvc) cancelHelper
           data routerPublicIdentifier routerSignerAddress calls =
           (Inl (ForwardTransferError ReceiverOffline
                   [(''routingId'', CStr rid),
                    (''senderTransfer'', CStr (FullTransferState.transferId t)),
                    (''recipientChannel'',
                       CStr (FullChannelState.channelAddress recipientCh))]),
            calls @ queued) \<and>
         storeAfter newId queued table =
           table @ [\<lparr>id' = newId (length table),
                     channelAddress = FullChannelState.channelAddress recipientCh,
                     type = TRANSFER_CREATION, payload = CreationPayload params,
                     status = PENDING\<rparr>]"
proof -
  have ro: "(case requireOnline (spreadMeta (FullTransferState.meta
               (ConditionalTransferCreatedPayload.transfer data))) of
              None \<Rightarrow> False | Some b \<Rightarrow> b) = False"
    using notRequired by (auto simp: m_def t_def)
  have ra: "ConditionalTransferParams.assetId params = ra"
    by (simp add: params transferParams_def)
  have attempt: "attemptTransferWithCollateralization tsvc params recipientCh False calls =
           (Inr None, calls @ queued)"
    using offline unfolding collateral queued
    by (auto simp: attemptTransferWithCollateralization_def Let_def ra split: if_splits)
  have fwd: "forwardTransferCreation svc (attemptTransferWithCollateralization tsvc) cancelHelper
           data routerPublicIdentifier routerSignerAddress calls =
           (Inl (ForwardTransferError ReceiverOffline
                   [(''routingId'', CStr rid),
                    (''senderTransfer'', CStr (FullTransferState.transferId t)),
                    (''recipientChannel'',
                       CStr (FullChannelState.channelAddress recipientCh))]),
            calls @ queued)"
    unfolding forwardTransferCreation_routed[OF info[unfolded m_def t_def]
      sender[unfolded t_def] asset[unfolded t_def] chain swap[unfolded t_def]] recipient ro
    using attempt by (simp add: params t_def)
  have store: "storeAfter newId queued table =
           table @ [\<lparr>id' = newId (length table),
                     channelAddress = FullChannelState.channelAddress recipientCh,
                     type = TRANSFER_CREATION, payload = CreationPayload params,
                     status = PENDING\<rparr>]"
    by (simp add: queued collateral queueUpdate_def)
  from attempt fwd store show ?thesis by blast
qed

theorem forwardTransferCreation_receiver_offline_queued_witness:
  "forwardTransferCreation routerServices (attemptTransferWithCollateralization offlineServices)
     cancelEnqueued
     (createdPayload (Some (routedMeta ''vectorC'' noExtra))) ''vectorB'' ''0xB'' [] =
   (Inl (ForwardTransferError ReceiverOffline
           [(''routingId'', CStr ''0xR1''), (''senderTransfer'', CStr ''0xT1''),
            (''recipientChannel'', CStr ''0xCh2'')]),
    queuedCreation) \<and>
   storeAfter rowId queuedCreation [] =
     [\<lparr>id' = ''row-1'', channelAddress = ''0xCh2'', type = TRANSFER_CREATION,
       payload = CreationPayload (outgoingParams noExtra), status = PENDING\<rparr>]"
proof -
  let ?data = "createdPayload (Some (routedMeta ''vectorC'' noExtra))"
  let ?t = "ConditionalTransferCreatedPayload.transfer ?data"
  let ?p = "\<lparr>recipient = Some ''vectorC'', recipientAssetId = None, recipientChainId = None\<rparr>"
  have info: "forwardingInfo (spreadMeta (FullTransferState.meta ?t)) =
                Some (''0xR1'', ?p, ''vectorC'')"
    by (simp add: createdPayload_def transferT1_def routedMeta_def spreadMeta_def
        forwardingInfo_def falsy_def firstOf_def Let_def)
  have sender: "getStateChannel routerServices (FullTransferState.channelAddress ?t) =
                  Inr (Some depositedChannel)"
    by (simp add: createdPayload_def transferT1_def routerServices_def)
  have asset: "''0xToken'' = (case recipientAssetId ?p of
                        None \<Rightarrow> FullTransferState.assetId ?t | Some a \<Rightarrow> a)"
    by (simp add: createdPayload_def transferT1_def)
  have chain: "1337 = (case recipientChainId ?p of
                        None \<Rightarrow> NetworkContext.chainId (networkContext depositedChannel)
                      | Some c \<Rightarrow> c)"
    by (simp add: depositedChannel_def restoredChannel_def)
  have swap: "inflightSwap routerServices ?t
                 (NetworkContext.chainId (networkContext depositedChannel)) ''0xToken'' 1337 =
              Inr (Some ''100'')"
    by (simp add: inflightSwap_def createdPayload_def transferT1_def firstOf_def
        depositedChannel_def restoredChannel_def Let_def)
  have found: "getStateChannelByParticipants routerServices ''vectorC'' 1337 =
                 Inr (Some channelBC)"
    by (simp add: routerServices_def)
  have notRequired: "requireOnline (spreadMeta (FullTransferState.meta ?t)) \<in> {None, Some False}"
    by (simp add: createdPayload_def transferT1_def routedMeta_def spreadMeta_def)
  have collateral: "[] =
           (if sufficientCollateral offlineServices channelBC (outgoingParams noExtra) then []
            else [RequestCollateral (FullChannelState.channelAddress channelBC) ''0xToken''])"
    by (simp add: offlineServices_def)
  have offline: "\<not> recipientOnline offlineServices ([] @ []) channelBC"
    by (simp add: offlineServices_def)
  have queued: "queuedCreation = [] @
           [SendIsAlive (FullChannelState.channelAddress channelBC),
            QueueUpdate (FullChannelState.channelAddress channelBC) TRANSFER_CREATION
              (CreationPayload (outgoingParams noExtra))]"
    by (simp add: queuedCreation_def channelBC_def)
  have ids: "FullTransferState.transferId ?t = ''0xT1''"
    "FullChannelState.channelAddress channelBC = ''0xCh2''"
    by (simp_all add: createdPayload_def transferT1_def channelBC_def)
  from forwardTransferCreation_receiver_offline_queued
         [where svc = routerServices and data = ?data and rid = "''0xR1''" and p = ?p
            and recipientIdentifier = "''vectorC''" and senderChannel = depositedChannel
            and ra = "''0xToken''" and rc = 1337 and recipientAmount = "Some ''100''"
            and recipientCh = channelBC and params = "outgoingParams noExtra"
            and routerPublicIdentifier = "''vectorB''" and tsvc = offlineServices
            and collateral = "[]" and calls = "[]" and queued = queuedCreation
            and cancelHelper = cancelEnqueued
            and routerSignerAddress = "''0xB''" and newId = rowId and table = "[]",
          OF info sender asset chain swap found outgoingParams_def notRequired collateral
             offline queued]
  show ?thesis
    unfolding ids by (simp add: rowId_def)
qed

text \<open>
  C5, the claim as stated, fails in its middle part: with the recipient offline and \<open>requireOnline\<close>
  unset, the attempt succeeds with an empty value and the update is queued, but the
  outcome that \<open>forwardTransferCreation\<close> returns is a failure (\<open>Result.fail\<close> of the
  \<open>ReceiverOffline\<close> error), not a success.
\<close>

theorem forwardTransferCreation_receiver_offline_counterexample:
  "attemptTransferWithCollateralization offlineServices (outgoingParams noExtra) channelBC
     False [] = (Inr None, queuedCreation) \<and>
   forwardTransferCreation routerServices (attemptTransferWithCollateralization offlineServices)
     cancelEnqueued
     (createdPayload (Some (routedMeta ''vectorC'' noExtra))) ''vectorB'' ''0xB'' [] =
   (Inl (ForwardTransferError ReceiverOffline
           [(''routingId'', CStr ''0xR1''), (''senderTransfer'', CStr ''0xT1''),
            (''recipientChannel'', CStr ''0xCh2'')]),
    queuedCreation) \<and>
   isError (fst (forwardTransferCreation routerServices
     (attemptTransferWithCollateralization offlineServices)
     cancelEnqueued
     (createdPayload (Some (routedMeta ''vectorC'' noExtra))) ''vectorB'' ''0xB'' []))"
proof -
  have attempt: "attemptTransferWithCollateralization offlineServices (outgoingParams noExtra)
     channelBC False [] = (Inr None, queuedCreation)"
    by (simp add: attemptTransferWithCollateralization_def offlineServices_def
        queuedCreation_def channelBC_def Let_def)
  then show ?thesis
    by (simp add: forwardTransferCreation_run isError_def)
qed

subsection \<open>Forwarding a resolution\<close>

text \<open>
  C8. For a resolved transfer that has a meta, \<open>forwardTransferResolution\<close> looks up the
  transfers of its \<open>routingId\<close>. If the lookup fails or no transfer has the router's signer
  address as responder, it fails with \<open>IncomingChannelNotFound\<close> and calls nothing. Otherwise
  it takes the first transfer whose responder is the router's signer address and resolves it:
  the resolve parameters name that transfer and its channel and carry the resolver of the
  resolved transfer. On success the only call is this resolve and its value is returned; on
  failure the result is \<open>ErrorResolvingTransfer\<close> and the calls are the resolve followed by
  the enqueueing of a \<open>TRANSFER_RESOLUTION\<close> update with the same parameters, and nothing
  else: no cancellation.
\<close>

theorem forwardTransferResolution_resolves_sender_side:
  fixes svc :: router_services and data :: ConditionalTransferResolvedPayload
  defines "resolved \<equiv> ConditionalTransferResolvedPayload.transfer data"
  assumes meta: "FullTransferState.meta resolved = Some m"
    and run: "forwardTransferResolution svc data routerPublicIdentifier routerSignerAddress
                calls = (res, calls')"
  shows "(\<forall>e. getTransfersByRoutingId svc (routingId m) = Inl e \<longrightarrow>
            calls' = calls \<and>
            (\<exists>ctx. res = Inl (ForwardResolutionError IncomingChannelNotFound ctx))) \<and>
         (\<forall>transfers. getTransfersByRoutingId svc (routingId m) = Inr transfers \<and>
            (\<forall>t \<in> set transfers. responder t \<noteq> routerSignerAddress) \<longrightarrow>
            calls' = calls \<and>
            (\<exists>ctx. res = Inl (ForwardResolutionError IncomingChannelNotFound ctx))) \<and>
         (\<forall>before incoming after.
            getTransfersByRoutingId svc (routingId m) = Inr (before @ incoming # after) \<and>
            responder incoming = routerSignerAddress \<and>
            (\<forall>t \<in> set before. responder t \<noteq> routerSignerAddress) \<longrightarrow>
            (\<exists>params.
               ResolveTransferParams.channelAddress params =
                 FullTransferState.channelAddress incoming \<and>
               ResolveTransferParams.transferId params = FullTransferState.transferId incoming \<and>
               ResolveTransferParams.transferResolver params =
                 FullTransferState.transferResolver resolved \<and>
               (case resolveTransfer svc calls (ResolutionPayload params) of
                  Inr v \<Rightarrow>
                    res = Inr v \<and> calls' = calls @ [ResolveTransfer (ResolutionPayload params)]
                | Inl e \<Rightarrow>
                    (\<exists>ctx. res = Inl (ForwardResolutionError ErrorResolvingTransfer ctx)) \<and>
                    calls' = calls @
                      [ResolveTransfer (ResolutionPayload params),
                       QueueUpdate (FullTransferState.channelAddress incoming)
                         TRANSFER_RESOLUTION (ResolutionPayload params)])))"
proof (intro conjI allI impI)
  fix e assume "getTransfersByRoutingId svc (routingId m) = Inl e"
  with meta run show "calls' = calls"
    and "\<exists>ctx. res = Inl (ForwardResolutionError IncomingChannelNotFound ctx)"
    by (auto simp: forwardTransferResolution_def resolved_def Let_def)
next
  fix transfers
  assume h: "getTransfersByRoutingId svc (routingId m) = Inr transfers \<and>
            (\<forall>t \<in> set transfers. responder t \<noteq> routerSignerAddress)"
  then have "find (\<lambda>t. responder t = routerSignerAddress) transfers = None"
    by (simp add: find_None_iff)
  with h meta run show "calls' = calls"
    and "\<exists>ctx. res = Inl (ForwardResolutionError IncomingChannelNotFound ctx)"
    by (auto simp: forwardTransferResolution_def resolved_def Let_def)
next
  fix before incoming after
  assume h: "getTransfersByRoutingId svc (routingId m) = Inr (before @ incoming # after) \<and>
            responder incoming = routerSignerAddress \<and>
            (\<forall>t \<in> set before. responder t \<noteq> routerSignerAddress)"
  then have found: "find (\<lambda>t. responder t = routerSignerAddress) (before @ incoming # after) =
                      Some incoming"
    unfolding find_first_match by blast
  let ?params = "resolveParams incoming (FullTransferState.transferResolver resolved)
                   routerPublicIdentifier"
  have fields: "ResolveTransferParams.channelAddress ?params =
                 FullTransferState.channelAddress incoming \<and>
               ResolveTransferParams.transferId ?params = FullTransferState.transferId incoming \<and>
               ResolveTransferParams.transferResolver ?params =
                 FullTransferState.transferResolver resolved"
    by (simp add: resolveParams_def)
  have outcome: "case resolveTransfer svc calls (ResolutionPayload ?params) of
                  Inr v \<Rightarrow>
                    res = Inr v \<and> calls' = calls @ [ResolveTransfer (ResolutionPayload ?params)]
                | Inl e \<Rightarrow>
                    (\<exists>ctx. res = Inl (ForwardResolutionError ErrorResolvingTransfer ctx)) \<and>
                    calls' = calls @
                      [ResolveTransfer (ResolutionPayload ?params),
                       QueueUpdate (FullTransferState.channelAddress incoming)
                         TRANSFER_RESOLUTION (ResolutionPayload ?params)]"
    using h found meta run
    by (auto simp: forwardTransferResolution_def resolved_def Let_def split: sum.splits)
  from fields outcome
  show "\<exists>params.
               ResolveTransferParams.channelAddress params =
                 FullTransferState.channelAddress incoming \<and>
               ResolveTransferParams.transferId params = FullTransferState.transferId incoming \<and>
               ResolveTransferParams.transferResolver params =
                 FullTransferState.transferResolver resolved \<and>
               (case resolveTransfer svc calls (ResolutionPayload params) of
                  Inr v \<Rightarrow>
                    res = Inr v \<and> calls' = calls @ [ResolveTransfer (ResolutionPayload params)]
                | Inl e \<Rightarrow>
                    (\<exists>ctx. res = Inl (ForwardResolutionError ErrorResolvingTransfer ctx)) \<and>
                    calls' = calls @
                      [ResolveTransfer (ResolutionPayload params),
                       QueueUpdate (FullTransferState.channelAddress incoming)
                         TRANSFER_RESOLUTION (ResolutionPayload params)])"
    by blast
qed

theorem forwardTransferResolution_resolves_sender_side_witness:
  "fst (forwardTransferResolution routerServices resolvedPayload ''vectorB'' ''0xB'' []) =
     Inl (ForwardResolutionError ErrorResolvingTransfer
            [(''message'', CStr ''Timeout''), (''routingId'', CStr ''0xR1''),
             (''transferResolver'', CObj preImageResolver),
             (''incomingTransferChannel'', CStr ''0xCh''),
             (''recipientTransferId'', CStr ''0xT2''),
             (''recipientChannelAddress'', CStr ''0xCh2'')]) \<and>
   snd (forwardTransferResolution routerServices resolvedPayload ''vectorB'' ''0xB'' []) =
     [ResolveTransfer senderResolve, QueueUpdate ''0xCh'' TRANSFER_RESOLUTION senderResolve]"
proof -
  let ?m = "routedMeta ''vectorC'' noExtra"
  obtain res calls' where run:
    "forwardTransferResolution routerServices resolvedPayload ''vectorB'' ''0xB'' [] = (res, calls')"
    by (cases "forwardTransferResolution routerServices resolvedPayload ''vectorB'' ''0xB'' []")
  have meta: "FullTransferState.meta (ConditionalTransferResolvedPayload.transfer resolvedPayload) =
                Some ?m"
    by (simp add: resolvedPayload_def transferT1_def)
  have lookup: "getTransfersByRoutingId routerServices (routingId ?m) =
                  Inr ([] @ transferT1 None # []) \<and>
                responder (transferT1 None) = ''0xB'' \<and>
                (\<forall>t \<in> set []. responder t \<noteq> ''0xB'')"
    by (simp add: routerServices_def routedMeta_def transferT1_def)
  from forwardTransferResolution_resolves_sender_side[OF meta run] lookup
  obtain params where p:
    "ResolveTransferParams.channelAddress params =
       FullTransferState.channelAddress (transferT1 None)"
    "case resolveTransfer routerServices [] (ResolutionPayload params) of
        Inr v \<Rightarrow> res = Inr v \<and> calls' = [] @ [ResolveTransfer (ResolutionPayload params)]
      | Inl e \<Rightarrow>
          (\<exists>ctx. res = Inl (ForwardResolutionError ErrorResolvingTransfer ctx)) \<and>
          calls' = [] @
            [ResolveTransfer (ResolutionPayload params),
             QueueUpdate (FullTransferState.channelAddress (transferT1 None))
               TRANSFER_RESOLUTION (ResolutionPayload params)]"
    by blast
  have fails: "resolveTransfer routerServices [] (ResolutionPayload params) = Inl ''Timeout''"
    by (simp add: routerServices_def)
  from p(2) have shape: "\<exists>ctx. res = Inl (ForwardResolutionError ErrorResolvingTransfer ctx)"
    by (simp add: fails)
  have direct: "forwardTransferResolution routerServices resolvedPayload ''vectorB'' ''0xB'' [] =
     (Inl (ForwardResolutionError ErrorResolvingTransfer
            [(''message'', CStr ''Timeout''), (''routingId'', CStr ''0xR1''),
             (''transferResolver'', CObj preImageResolver),
             (''incomingTransferChannel'', CStr ''0xCh''),
             (''recipientTransferId'', CStr ''0xT2''),
             (''recipientChannelAddress'', CStr ''0xCh2'')]),
      [ResolveTransfer senderResolve, QueueUpdate ''0xCh'' TRANSFER_RESOLUTION senderResolve])"
    by (simp add: forwardTransferResolution_def resolvedPayload_def transferT1_def
        routedMeta_def routerServices_def resolveParams_def senderResolve_def optStr_def
        optObj_def Let_def)
  from shape direct run show ?thesis by simp
qed

subsection \<open>The check-in handler\<close>





end
